theory Spec2Isabelle
  imports Complex_Main
begin

section \<open>Python values used by \<open>os_paw/api_utils.py\<close>\<close>

text \<open>
  Strings are lists of 8-bit characters, read as the code points U+0000 to U+00FF.
  Every exception the module can raise is a constructor of \<open>error\<close>; a function that
  may raise returns \<open>error + 'a\<close>, with \<open>Inl\<close> for the exception. \<open>assert\<close> statements
  are taken as enabled (the interpreter is not run with \<open>-O\<close>).
\<close>

datatype error =
    AssertionError string
  | ValueError string
  | IndexError string
  | KeyError string
  | UnboundLocalError string
  | Exception string

text \<open>
  A Python \<open>float\<close>: a finite value (every binary64 number is a rational), the two
  infinities, or not-a-number. The two zeros compare equal and are both \<open>Fin 0\<close>.
\<close>

datatype pyfloat = Fin rat | PInf | NInf | NaN

text \<open>\<open>x < y\<close> on floats; a Python \<open>int\<close> operand \<open>k\<close> enters as \<open>Fin (of_int k)\<close>, since
  Python compares a float with an int by their exact values. Any comparison with
  not-a-number is false.\<close>

fun float_lt :: "pyfloat \<Rightarrow> pyfloat \<Rightarrow> bool" where
  "float_lt NaN _ = False"
| "float_lt _ NaN = False"
| "float_lt (Fin a) (Fin b) = (a < b)"
| "float_lt (Fin _) PInf = True"
| "float_lt (Fin _) NInf = False"
| "float_lt PInf _ = False"
| "float_lt NInf NInf = False"
| "float_lt NInf _ = True"

definition float_gt :: "pyfloat \<Rightarrow> pyfloat \<Rightarrow> bool" where
  "float_gt x y = float_lt y x"

definition of_pyint :: "int \<Rightarrow> pyfloat" where
  "of_pyint k = Fin (of_int k)"

subsection \<open>String operations\<close>

text \<open>\<open>s.split(c)\<close> for a one-character separator: never empty, \<open>''.split(c) == ['']\<close>.\<close>

fun split :: "char \<Rightarrow> string \<Rightarrow> string list" where
  "split c [] = [[]]"
| "split c (x # xs) =
     (let r = split c xs in if x = c then [] # r else (x # hd r) # tl r)"

text \<open>\<open>sep.join(xs)\<close>.\<close>

fun join :: "string \<Rightarrow> string list \<Rightarrow> string" where
  "join sep [] = []"
| "join sep [x] = x"
| "join sep (x # y # ys) = x @ sep @ join sep (y # ys)"

text \<open>The characters below U+0100 for which \<open>str.isspace\<close> holds.\<close>

definition whitespace :: "char list" where
  "whitespace = [CHR 0x09, CHR 0x0A, CHR 0x0B, CHR 0x0C, CHR 0x0D, CHR 0x1C, CHR 0x1D,
                 CHR 0x1E, CHR 0x1F, CHR 0x20, CHR 0x85, CHR 0xA0]"

definition isspace :: "char \<Rightarrow> bool" where
  "isspace c = (c \<in> set whitespace)"

text \<open>\<open>s.strip()\<close>.\<close>

definition strip :: "string \<Rightarrow> string" where
  "strip s = rev (dropWhile isspace (rev (dropWhile isspace s)))"

text \<open>\<open>xs[i]\<close> for a literal index \<open>i \<ge> 0\<close>.\<close>

definition index :: "'a list \<Rightarrow> nat \<Rightarrow> error + 'a" where
  "index xs i =
     (if i < length xs then Inr (xs ! i) else Inl (IndexError ''list index out of range''))"

text \<open>\<open>str(n)\<close> for an \<open>int\<close>, as the f-strings of the messages render the bounds.\<close>

fun str_nat :: "nat \<Rightarrow> string" where
  "str_nat n = (if n < 10 then [''0123456789'' ! n]
                else str_nat (n div 10) @ [''0123456789'' ! (n mod 10)])"

declare str_nat.simps [simp del]

definition str_int :: "int \<Rightarrow> string" where
  "str_int k = (if k < 0 then CHR ''-'' # str_nat (nat (- k)) else str_nat (nat k))"

section \<open>Spatial reference systems\<close>

definition VALID_SPATIAL_REFERENCE_SYSTEMS :: "string list" where
  "VALID_SPATIAL_REFERENCE_SYSTEMS = [''EPSG:4326'', ''EPSG:27700'']"

definition srs_msg :: "string \<Rightarrow> string" where
  "srs_msg srs_string =
     srs_string @ '' is not a valid Spatial Reference System.'' @ [CHR 0x0A] @
     ''Valid Spatial Reference Systems are: ('' @ [CHR 0x27] @ ''EPSG:4326'' @ [CHR 0x27] @
     '', '' @ [CHR 0x27] @ ''EPSG:27700'' @ [CHR 0x27] @ '').''"

definition validate_srs :: "string \<Rightarrow> error + unit" where
  "validate_srs srs_string =
     (if srs_string \<in> set VALID_SPATIAL_REFERENCE_SYSTEMS then Inr ()
      else Inl (AssertionError (srs_msg srs_string)))"

section \<open>Bounding boxes\<close>

text \<open>
  \<open>float\<close> is Python's built-in conversion of a string, passed to the validators as
  \<open>flt\<close>: \<open>None\<close> where it raises \<open>ValueError\<close> (the model's \<open>ValueError\<close> carries the
  rejected token). \<open>token_in flt toks i lo hi\<close> is the source's
  \<open>float(toks[i]) > lo and float(toks[i]) < hi\<close>: indexing, then conversion, then the
  two strict comparisons.
\<close>

definition token_in ::
  "(string \<Rightarrow> pyfloat option) \<Rightarrow> string list \<Rightarrow> nat \<Rightarrow> int \<Rightarrow> int \<Rightarrow> error + bool" where
  "token_in flt toks i lo hi =
     (case index toks i of
        Inl e \<Rightarrow> Inl e
      | Inr t \<Rightarrow>
          (case flt t of
             None \<Rightarrow> Inl (ValueError t)
           | Some v \<Rightarrow> Inr (float_gt v (of_pyint lo) \<and> float_lt v (of_pyint hi))))"

text \<open>\<open>a and b\<close> on conditions that may raise: \<open>b\<close> is evaluated only when \<open>a\<close> is true.\<close>

definition and_also :: "error + bool \<Rightarrow> error + bool \<Rightarrow> error + bool" where
  "and_also a b = (case a of Inl e \<Rightarrow> Inl e | Inr False \<Rightarrow> Inr False | Inr True \<Rightarrow> b)"

text \<open>\<open>assert cond, message\<close>: the message is evaluated only when the condition is false.\<close>

definition py_assert :: "error + bool \<Rightarrow> error + string \<Rightarrow> error + unit" where
  "py_assert cond message =
     (case cond of
        Inl e \<Rightarrow> Inl e
      | Inr True \<Rightarrow> Inr ()
      | Inr False \<Rightarrow> (case message of Inl e \<Rightarrow> Inl e | Inr m \<Rightarrow> Inl (AssertionError m)))"

definition and_then :: "error + unit \<Rightarrow> error + 'a \<Rightarrow> error + 'a" where
  "and_then a b = (case a of Inl e \<Rightarrow> Inl e | Inr _ \<Rightarrow> b)"

definition bbox_format_4326 :: string where
  "bbox_format_4326 =
     ''Format bbox as a comma-separated string of the form '' @
     [CHR 0x22] @ ''latitude_SW, longitude_SW, latitude_NE, longitude_NE'' @ [CHR 0x22] @ ''.''"

definition bbox_format_27700 :: string where
  "bbox_format_27700 =
     ''Format bbox as a comma-separated string of the form '' @
     [CHR 0x22] @ ''Easting_SW, Northing_SW, Easting_NE, Northing_NE'' @ [CHR 0x22] @ ''.''"

text \<open>The variable \<open>msg\<close> of \<open>_validate_bbox\<close>: it is bound only under the two identifiers.\<close>

definition bbox_msg :: "string \<Rightarrow> error + string" where
  "bbox_msg srs =
     (if srs = ''EPSG:4326'' then Inr bbox_format_4326
      else if srs = ''EPSG:27700'' then Inr bbox_format_27700
      else Inl (UnboundLocalError ''msg''))"

definition latitude_text :: "int \<Rightarrow> int \<Rightarrow> string \<Rightarrow> string" where
  "latitude_text min_y max_y m =
     ''British Latitude values must be between '' @ str_int min_y @
     '' and '' @ str_int max_y @ ''. '' @ m"

definition longitude_text :: "int \<Rightarrow> int \<Rightarrow> string \<Rightarrow> string" where
  "longitude_text min_x max_x m =
     ''British Longitude values must be between '' @ str_int min_x @
     '' and '' @ str_int max_x @ ''. '' @ m"

definition latitude_msg :: "int \<Rightarrow> int \<Rightarrow> error + string \<Rightarrow> error + string" where
  "latitude_msg min_y max_y msg =
     (case msg of Inl e \<Rightarrow> Inl e | Inr m \<Rightarrow> Inr (latitude_text min_y max_y m))"

definition longitude_msg :: "int \<Rightarrow> int \<Rightarrow> error + string \<Rightarrow> error + string" where
  "longitude_msg min_x max_x msg =
     (case msg of Inl e \<Rightarrow> Inl e | Inr m \<Rightarrow> Inr (longitude_text min_x max_x m))"

text \<open>\<open>_validate_bbox\<close> (an Isabelle name cannot start with an underscore).\<close>

definition validate_bbox_inner ::
  "(string \<Rightarrow> pyfloat option) \<Rightarrow> string \<Rightarrow> string \<Rightarrow> int \<Rightarrow> int \<Rightarrow> int \<Rightarrow> int
     \<Rightarrow> error + unit" where
  "validate_bbox_inner flt bbox_string srs min_x max_x min_y max_y =
     (let bbox_list = split CHR '','' bbox_string;
          msg = bbox_msg srs
      in and_then
           (py_assert
              (and_also (token_in flt bbox_list 0 min_y max_y)
                        (token_in flt bbox_list 2 min_y max_y))
              (latitude_msg min_y max_y msg))
           (py_assert
              (and_also (token_in flt bbox_list 1 min_x max_x)
                        (token_in flt bbox_list 3 min_x max_x))
              (longitude_msg min_x max_x msg)))"

definition validate_bbox :: "(string \<Rightarrow> pyfloat option) \<Rightarrow> string \<Rightarrow> string \<Rightarrow> error + unit" where
  "validate_bbox flt bbox_string srs =
     and_then (validate_srs srs)
       (if srs = ''EPSG:4326'' then
          validate_bbox_inner flt bbox_string ''EPSG:4326'' (-7) 2 49 61
        else if srs = ''EPSG:27700'' then
          validate_bbox_inner flt bbox_string ''EPSG:27700'' 0 700000 0 1250000
        else Inr ())"

section \<open>Polygon strings\<close>

definition bind :: "error + 'a \<Rightarrow> ('a \<Rightarrow> error + 'b) \<Rightarrow> error + 'b" where
  "bind a f = (case a of Inl e \<Rightarrow> Inl e | Inr v \<Rightarrow> f v)"

text \<open>A list comprehension whose element expression may raise: the first exception, from
  left to right, ends it.\<close>

fun map_err :: "('a \<Rightarrow> error + 'b) \<Rightarrow> 'a list \<Rightarrow> error + 'b list" where
  "map_err f [] = Inr []"
| "map_err f (x # xs) =
     (case f x of
        Inl e \<Rightarrow> Inl e
      | Inr y \<Rightarrow> (case map_err f xs of Inl e \<Rightarrow> Inl e | Inr ys \<Rightarrow> Inr (y # ys)))"

definition to_float :: "(string \<Rightarrow> 'n option) \<Rightarrow> string \<Rightarrow> error + 'n" where
  "to_float flt t = (case flt t of None \<Rightarrow> Inl (ValueError t) | Some v \<Rightarrow> Inr v)"

text \<open>The first statement of \<open>_validate_polygon_string\<close>:
  \<open>[[float(coord) for coord in coords.split(',')] for coords in polygon_string.split(' ')]\<close>.\<close>

definition parse_polygon_coords :: "(string \<Rightarrow> 'n option) \<Rightarrow> string \<Rightarrow> error + 'n list list" where
  "parse_polygon_coords flt polygon_string =
     map_err (\<lambda>coords. map_err (to_float flt) (split CHR '','' coords))
       (split CHR '' '' polygon_string)"

text \<open>\<open>list(zip(*rows))\<close>: the columns of \<open>rows\<close>, as many as the shortest row has entries.\<close>

definition zip_star :: "'a list list \<Rightarrow> 'a list list" where
  "zip_star rows =
     (case rows of
        [] \<Rightarrow> []
      | r # rs \<Rightarrow> map (\<lambda>i. map (\<lambda>row. row ! i) rows)
                    [0 ..< foldl (\<lambda>n row. min n (length row)) (length r) rs])"

text \<open>\<open>max\<close> and \<open>min\<close> of a sequence of floats: the first element is kept until a later one
  compares strictly greater (for \<open>min\<close>: strictly less) than the one kept so far.\<close>

definition py_max :: "pyfloat list \<Rightarrow> error + pyfloat" where
  "py_max xs =
     (case xs of
        [] \<Rightarrow> Inl (ValueError ''max() arg is an empty sequence'')
      | x # rest \<Rightarrow> Inr (foldl (\<lambda>m v. if float_gt v m then v else m) x rest))"

definition py_min :: "pyfloat list \<Rightarrow> error + pyfloat" where
  "py_min xs =
     (case xs of
        [] \<Rightarrow> Inl (ValueError ''min() arg is an empty sequence'')
      | x # rest \<Rightarrow> Inr (foldl (\<lambda>m v. if float_lt v m then v else m) x rest))"

definition polygon_format :: string where
  "polygon_format =
     ''Format polygon as a space-separated string of comma-separated coordinates the form '' @
     [CHR 0x22] @ ''lat1,lon1 lat2,lon2 lat3,lon3 ... latn,lonn'' @ [CHR 0x22] @ ''.''"

definition polygon_msg :: "string \<Rightarrow> error + string" where
  "polygon_msg srs =
     (if srs = ''EPSG:4326'' then Inr polygon_format
      else if srs = ''EPSG:27700'' then Inr polygon_format
      else Inl (UnboundLocalError ''msg''))"

text \<open>\<open>_validate_polygon_string\<close>.\<close>

definition validate_polygon_string_inner ::
  "(string \<Rightarrow> pyfloat option) \<Rightarrow> string \<Rightarrow> string \<Rightarrow> int \<Rightarrow> int \<Rightarrow> int \<Rightarrow> int
     \<Rightarrow> error + unit" where
  "validate_polygon_string_inner flt polygon_string srs min_x max_x min_y max_y =
     bind (parse_polygon_coords flt polygon_string) (\<lambda>polygon_coords.
     let polygon_coords_transposed = zip_star polygon_coords in
     bind (bind (index polygon_coords_transposed 0) py_max) (\<lambda>max_lat.
     bind (bind (index polygon_coords_transposed 0) py_min) (\<lambda>min_lat.
     bind (bind (index polygon_coords_transposed 1) py_max) (\<lambda>max_lon.
     bind (bind (index polygon_coords_transposed 1) py_min) (\<lambda>min_lon.
     let msg = polygon_msg srs in
     and_then
       (py_assert (Inr (float_gt min_lat (of_pyint min_y) \<and> float_lt max_lat (of_pyint max_y)))
          (latitude_msg min_y max_y msg))
       (py_assert (Inr (float_gt min_lon (of_pyint min_x) \<and> float_lt max_lon (of_pyint max_x)))
          (longitude_msg min_x max_x msg)))))))"

definition validate_polygon_string ::
  "(string \<Rightarrow> pyfloat option) \<Rightarrow> string \<Rightarrow> string \<Rightarrow> error + unit" where
  "validate_polygon_string flt polygon_string srs =
     and_then (validate_srs srs)
       (if srs = ''EPSG:4326'' then
          validate_polygon_string_inner flt polygon_string ''EPSG:4326'' (-7) 2 49 61
        else if srs = ''EPSG:27700'' then
          validate_polygon_string_inner flt polygon_string ''EPSG:27700'' 0 700000 0 1250000
        else Inr ())"

section \<open>The built-in conversions between strings and floats\<close>

text \<open>
  \<open>py_float\<close> follows the grammar of Python's \<open>float(str)\<close>: surrounding whitespace is
  dropped; then an optional sign; then \<open>inf\<close>, \<open>infinity\<close> or \<open>nan\<close> in any letter case, or
  a decimal number: digits with optional single underscores between them, an optional
  point, an optional exponent. Its value is the exact value of the decimal text, where
  CPython returns the binary64 number nearest to it; the two agree wherever that value is
  a binary64 number. The general theorems below hold for every conversion \<open>flt\<close>;
  \<open>py_float\<close> is used at concrete inputs only.
\<close>

definition is_digit :: "char \<Rightarrow> bool" where
  "is_digit c = (c \<in> set ''0123456789'')"

definition digit_val :: "char \<Rightarrow> nat" where
  "digit_val c = length (takeWhile (\<lambda>d. d \<noteq> c) ''0123456789'')"

fun digitpart :: "string \<Rightarrow> bool" where
  "digitpart [] = False"
| "digitpart [c] = is_digit c"
| "digitpart (c # d # r) =
     (is_digit c \<and> (if d = CHR ''_'' then digitpart r else digitpart (d # r)))"

definition digits_val :: "string \<Rightarrow> nat" where
  "digits_val s = foldl (\<lambda>n c. 10 * n + digit_val c) 0 (filter is_digit s)"

definition lower_table :: "(char \<times> char) list" where
  "lower_table = zip ''ABCDEFGHIJKLMNOPQRSTUVWXYZ'' ''abcdefghijklmnopqrstuvwxyz''"

text \<open>\<open>s.lower()\<close> on the ASCII letters. The other characters are left as they are; none of
  them lowercases to an ASCII letter, so a comparison of \<open>s.lower()\<close> with an ASCII
  literal is not affected.\<close>

definition lower_chr :: "char \<Rightarrow> char" where
  "lower_chr c = (case map_of lower_table c of Some d \<Rightarrow> d | None \<Rightarrow> c)"

definition lower :: "string \<Rightarrow> string" where
  "lower s = map lower_chr s"

definition exponent :: "string \<Rightarrow> int option" where
  "exponent s =
     (case s of
        [] \<Rightarrow> None
      | c # r \<Rightarrow>
          if c = CHR ''-'' then (if digitpart r then Some (- int (digits_val r)) else None)
          else if c = CHR ''+'' then (if digitpart r then Some (int (digits_val r)) else None)
          else (if digitpart s then Some (int (digits_val s)) else None))"

definition scale10 :: "nat \<Rightarrow> int \<Rightarrow> rat" where
  "scale10 m e = (if 0 \<le> e then of_nat m * 10 ^ nat e else of_nat m / 10 ^ nat (- e))"

definition floatnumber :: "string \<Rightarrow> rat option" where
  "floatnumber s =
     (let is_e = (\<lambda>c. c = CHR ''e'' \<or> c = CHR ''E'');
          number = takeWhile (\<lambda>c. \<not> is_e c) s;
          after = dropWhile (\<lambda>c. \<not> is_e c) s;
          ip = takeWhile (\<lambda>c. c \<noteq> CHR ''.'') number;
          point = dropWhile (\<lambda>c. c \<noteq> CHR ''.'') number;
          fp = tl point;
          number_ok = (if point = [] then digitpart ip
                       else (digitpart fp \<and> (ip = [] \<or> digitpart ip)) \<or> (fp = [] \<and> digitpart ip));
          e = (if after = [] then Some 0 else exponent (tl after))
      in case e of
           None \<Rightarrow> None
         | Some k \<Rightarrow>
             if number_ok
             then Some (scale10 (digits_val (ip @ fp)) (k - int (length (filter is_digit fp))))
             else None)"

definition absfloatvalue :: "bool \<Rightarrow> string \<Rightarrow> pyfloat option" where
  "absfloatvalue negative s =
     (if lower s = ''inf'' \<or> lower s = ''infinity'' then Some (if negative then NInf else PInf)
      else if lower s = ''nan'' then Some NaN
      else map_option (\<lambda>q. Fin (if negative then - q else q)) (floatnumber s))"

definition py_float :: "string \<Rightarrow> pyfloat option" where
  "py_float s =
     (case strip s of
        [] \<Rightarrow> None
      | c # r \<Rightarrow>
          if c = CHR ''-'' then absfloatvalue True r
          else if c = CHR ''+'' then absfloatvalue False r
          else absfloatvalue False (c # r))"

section \<open>What the claims speak of\<close>

text \<open>A float lies strictly inside \<open>(lo, hi)\<close>: it is finite and strictly between the bounds.\<close>

definition strictly_inside :: "pyfloat \<Rightarrow> int \<Rightarrow> int \<Rightarrow> bool" where
  "strictly_inside v lo hi = (case v of Fin q \<Rightarrow> of_int lo < q \<and> q < of_int hi | _ \<Rightarrow> False)"

text \<open>A token is numeric and its value lies strictly inside \<open>(lo, hi)\<close>.\<close>

definition numeric_inside :: "(string \<Rightarrow> pyfloat option) \<Rightarrow> string \<Rightarrow> int \<Rightarrow> int \<Rightarrow> bool" where
  "numeric_inside flt t lo hi = (case flt t of Some v \<Rightarrow> strictly_inside v lo hi | None \<Rightarrow> False)"

text \<open>A token list has four tokens or more, and the first four are numeric and lie strictly
  inside the extent: tokens 0 and 2 in \<open>(min_y, max_y)\<close>, tokens 1 and 3 in \<open>(min_x, max_x)\<close>.\<close>

definition first_four_inside ::
  "(string \<Rightarrow> pyfloat option) \<Rightarrow> string list \<Rightarrow> int \<Rightarrow> int \<Rightarrow> int \<Rightarrow> int \<Rightarrow> bool" where
  "first_four_inside flt toks min_x max_x min_y max_y =
     (4 \<le> length toks \<and>
      numeric_inside flt (toks ! 0) min_y max_y \<and> numeric_inside flt (toks ! 1) min_x max_x \<and>
      numeric_inside flt (toks ! 2) min_y max_y \<and> numeric_inside flt (toks ! 3) min_x max_x)"

text \<open>The exceptions a malformed bbox string can end in: the \<open>IndexError\<close> of a missing token,
  the \<open>ValueError\<close> of a token among the first four that \<open>float\<close> rejects, and the two
  \<open>AssertionError\<close>s of the extent checks, whose messages end with the format text \<open>fmt\<close>.\<close>

definition bbox_failures ::
  "(string \<Rightarrow> pyfloat option) \<Rightarrow> string list \<Rightarrow> int \<Rightarrow> int \<Rightarrow> int \<Rightarrow> int \<Rightarrow> string \<Rightarrow> error set" where
  "bbox_failures flt toks min_x max_x min_y max_y fmt =
     {IndexError ''list index out of range'', AssertionError (latitude_text min_y max_y fmt),
      AssertionError (longitude_text min_x max_x fmt)} \<union>
     ValueError ` {t \<in> set (take 4 toks). flt t = None}"

section \<open>The spatial filter\<close>

text \<open>The template of \<open>create_polygon_filter\<close> after \<open>.format(srs_num=..., poly_string=...)\<close>.\<close>

definition xml_template :: "string \<Rightarrow> string \<Rightarrow> string" where
  \<open>xml_template srs_num poly_string =
     ''<ogc:Filter>'' @ [CHR 0x0A] @
     ''                <ogc:Intersects>'' @ [CHR 0x0A] @
     ''                    <ogc:PropertyName>SHAPE</ogc:PropertyName>'' @ [CHR 0x0A] @
     ''                    <gml:Polygon srsName="urn:ogc:def:crs:EPSG::'' @ srs_num @ ''">'' @ [CHR 0x0A] @
     ''                        <gml:outerBoundaryIs>'' @ [CHR 0x0A] @
     ''                            <gml:LinearRing>'' @ [CHR 0x0A] @
     ''                                <gml:coordinates>'' @ poly_string @ ''</gml:coordinates>'' @ [CHR 0x0A] @
     ''                            </gml:LinearRing>'' @ [CHR 0x0A] @
     ''                        </gml:outerBoundaryIs>'' @ [CHR 0x0A] @
     ''                    </gml:Polygon>'' @ [CHR 0x0A] @
     ''                </ogc:Intersects>'' @ [CHR 0x0A] @
     ''            </ogc:Filter>''\<close>

definition create_polygon_filter :: "string \<Rightarrow> string \<Rightarrow> error + string" where
  "create_polygon_filter polygon_string srs =
     bind (index (split CHR '':'' srs) 1) (\<lambda>srs_num.
       let xml = xml_template srs_num polygon_string
       in Inr (concat (map strip (split (CHR 0x0A) xml))))"

text \<open>The filter as one line, as the interface description gives it: the template's lines
  without their indentation, one after the other, around the code and the coordinates.\<close>

definition single_line_filter :: "string \<Rightarrow> string \<Rightarrow> string" where
  \<open>single_line_filter code coords =
     ''<ogc:Filter><ogc:Intersects><ogc:PropertyName>SHAPE</ogc:PropertyName>'' @
     ''<gml:Polygon srsName="urn:ogc:def:crs:EPSG::'' @ code @ ''">'' @
     ''<gml:outerBoundaryIs><gml:LinearRing>'' @
     ''<gml:coordinates>'' @ coords @ ''</gml:coordinates>'' @
     ''</gml:LinearRing></gml:outerBoundaryIs></gml:Polygon></ogc:Intersects></ogc:Filter>''\<close>

section \<open>GeoJSON features\<close>

text \<open>
  A feature and its geometry are dictionaries; a field is \<open>None\<close> when the key is absent,
  in which case subscripting raises \<open>KeyError\<close>. The coordinates have any type \<open>'c\<close>. A
  \<open>properties\<close> value is JSON \<open>null\<close> (Python's \<open>None\<close>) or an object, kept as an association
  list.
\<close>

datatype 'v props = PNone | PDict "(string \<times> 'v) list"

record 'c geojson_geometry =
  type :: "string option"
  coordinates :: "'c option"

record ('c, 'v) geojson_feature =
  geometry :: "'c geojson_geometry option"
  properties :: "'v props option"

text \<open>\<open>d[key]\<close> on a dictionary field.\<close>

definition getitem :: "'a option \<Rightarrow> string \<Rightarrow> error + 'a" where
  "getitem field key = (case field of None \<Rightarrow> Inl (KeyError key) | Some v \<Rightarrow> Inr v)"

definition get_feature_geometry_type :: "('c, 'v) geojson_feature \<Rightarrow> error + string" where
  "get_feature_geometry_type feature =
     (case bind (getitem (geometry feature) ''geometry'') (\<lambda>g. getitem (type g) ''type'') of
        Inl (KeyError _) \<Rightarrow> Inl (Exception ''Feature is not in standard GeoJSON format.'')
      | r \<Rightarrow> r)"

text \<open>
  \<open>LineString\<close> and \<open>Feature\<close> are the constructors of the \<open>geojson\<close> package. A geometry
  constructor tags the coordinates with its class name. \<open>Feature\<close> stores the geometry and
  \<open>properties or {}\<close>: a \<open>None\<close> becomes the empty dictionary. What the package does to the
  coordinates themselves (rounding, in its later releases) is not modelled.
\<close>

definition LineString :: "'c \<Rightarrow> 'c geojson_geometry" where
  "LineString coords = \<lparr>type = Some ''LineString'', coordinates = Some coords\<rparr>"

definition properties_or_empty :: "'v props \<Rightarrow> 'v props" where
  "properties_or_empty p = (case p of PNone \<Rightarrow> PDict [] | PDict kvs \<Rightarrow> PDict kvs)"

definition Feature :: "'c geojson_geometry \<Rightarrow> 'v props \<Rightarrow> ('c, 'v) geojson_feature" where
  "Feature g p = \<lparr>geometry = Some g, properties = Some (properties_or_empty p)\<rparr>"

definition convert_single_feature_to_geojson ::
  "('c \<Rightarrow> 'c geojson_geometry) \<Rightarrow> ('c list, 'v) geojson_feature \<Rightarrow> error + ('c, 'v) geojson_feature" where
  "convert_single_feature_to_geojson geometry_type single_feature =
     bind (getitem (geometry single_feature) ''geometry'') (\<lambda>g.
     bind (getitem (coordinates g) ''coordinates'') (\<lambda>coords.
     bind (index coords 0) (\<lambda>new_coordinates.
     let new_linestring = geometry_type new_coordinates in
     bind (getitem (properties single_feature) ''properties'') (\<lambda>props.
     Inr (Feature new_linestring props)))))"

definition convert_features_to_geojson ::
  "('c list, 'v) geojson_feature list \<Rightarrow> error + ('c, 'v) geojson_feature list" where
  "convert_features_to_geojson features =
     map_err (convert_single_feature_to_geojson LineString) features"

text \<open>\<open>validate_geojson_polygon\<close> has no \<open>return\<close> statement: where it does not raise, its
  value is Python's \<open>None\<close>, here \<open>Inr None\<close>.\<close>

definition validate_geojson_polygon ::
  "('c, 'v) geojson_feature \<Rightarrow> error + ('c, 'v) geojson_feature option" where
  "validate_geojson_polygon geojson =
     bind (get_feature_geometry_type geojson) (\<lambda>t.
     let geom_type = lower t in
     if geom_type \<noteq> ''polygon''
     then Inl (Exception
       ''Geometry to fetch intersecting features is not a valid GeoJSON Polygon Feature'')
     else Inr None)"

text \<open>\<open>geojson_polygon_to_string\<close>; \<open>str\<close> is Python's \<open>str\<close> on the numbers of the ring.\<close>

definition geojson_polygon_to_string ::
  "('n \<Rightarrow> string) \<Rightarrow> ('n list list list, 'v) geojson_feature \<Rightarrow> error + string" where
  "geojson_polygon_to_string str geojson =
     bind (getitem (geometry geojson) ''geometry'') (\<lambda>g.
     bind (getitem (coordinates g) ''coordinates'') (\<lambda>coords.
     bind (index coords 0) (\<lambda>ring.
     let polygon_coord_strings = map (\<lambda>coord. join '','' (map str (rev coord))) ring;
         polygon_string = join '' '' polygon_coord_strings
     in Inr polygon_string)))"

text \<open>
  \<open>py_str\<close> is \<open>str\<close> on a float whose finite values are exact decimals, as \<open>py_float\<close> has
  them: the decimal expansion with at least one and at most 17 digits after the point. It
  is CPython's \<open>repr\<close> for zero and for a value of at most 15 significant digits whose
  magnitude is at least \<open>1e-4\<close> and below \<open>1e16\<close>. It is used at concrete inputs only.
\<close>

fun frac_digits :: "nat \<Rightarrow> rat \<Rightarrow> string" where
  "frac_digits 0 r = []"
| "frac_digits (Suc n) r =
     (if r = 0 then []
      else let d = nat \<lfloor>10 * r\<rfloor> in (''0123456789'' ! d) # frac_digits n (10 * r - of_nat d))"

definition py_str :: "pyfloat \<Rightarrow> string" where
  "py_str x =
     (case x of
        NaN \<Rightarrow> ''nan''
      | PInf \<Rightarrow> ''inf''
      | NInf \<Rightarrow> ''-inf''
      | Fin q \<Rightarrow>
          (let a = \<bar>q\<bar>; w = nat \<lfloor>a\<rfloor>; f = frac_digits 17 (a - of_nat w)
           in (if q < 0 then ''-'' else []) @ str_nat w @ ''.'' @ (if f = [] then ''0'' else f)))"

subsection \<open>Notions for the feature and polygon-string properties\<close>

text \<open>Two characters are the same letter in either case, or the same character.\<close>

definition same_letter :: "char \<Rightarrow> char \<Rightarrow> bool" where
  "same_letter a b = (a = b \<or> (a, b) \<in> set lower_table \<or> (b, a) \<in> set lower_table)"

definition equal_ignoring_case :: "string \<Rightarrow> string \<Rightarrow> bool" where
  "equal_ignoring_case s t = list_all2 same_letter s t"

text \<open>A feature that \<open>convert_single_feature_to_geojson\<close> can read: it has a geometry with a
  non-empty \<open>coordinates\<close> list, and a \<open>properties\<close> key.\<close>

definition has_ring_and_properties :: "('c list, 'v) geojson_feature \<Rightarrow> bool" where
  "has_ring_and_properties f =
     (case geometry f of
        None \<Rightarrow> False
      | Some g \<Rightarrow>
          (case coordinates g of
             None \<Rightarrow> False
           | Some cs \<Rightarrow> cs \<noteq> [] \<and> properties f \<noteq> None))"

text \<open>Every token of a polygon string is the text that \<open>str\<close> gives for its own value.\<close>

definition canonical_tokens :: "(string \<Rightarrow> 'n option) \<Rightarrow> ('n \<Rightarrow> string) \<Rightarrow> string \<Rightarrow> bool" where
  "canonical_tokens flt str polygon_string =
     (\<forall>vertex \<in> set (split CHR '' '' polygon_string). \<forall>t \<in> set (split CHR '','' vertex).
        map_option str (flt t) = Some t)"

text \<open>What the \<open>max\<close>/\<open>min\<close> check of one axis amounts to: the first value is a number,
  and every value that is a number lies strictly inside \<open>(lo, hi)\<close>.\<close>

definition axis_passes :: "pyfloat list \<Rightarrow> int \<Rightarrow> int \<Rightarrow> bool" where
  "axis_passes vals lo hi =
     (case vals of
        [] \<Rightarrow> False
      | x # xs \<Rightarrow> x \<noteq> NaN \<and> list_all (\<lambda>v. v = NaN \<or> strictly_inside v lo hi) vals)"

section \<open>Properties of the validators\<close>

lemma compare_strictly_inside:
  "(float_gt v (of_pyint lo) \<and> float_lt v (of_pyint hi)) = strictly_inside v lo hi"
  by (cases v) (simp_all add: float_gt_def of_pyint_def strictly_inside_def)

lemma token_in_eq:
  "token_in flt toks i lo hi =
     (if i < length toks
      then (case flt (toks ! i) of
              None \<Rightarrow> Inl (ValueError (toks ! i))
            | Some v \<Rightarrow> Inr (strictly_inside v lo hi))
      else Inl (IndexError ''list index out of range''))"
  by (simp add: token_in_def index_def compare_strictly_inside split: option.splits)

lemma token_in_True:
  "(token_in flt toks i lo hi = Inr True) = (i < length toks \<and> numeric_inside flt (toks ! i) lo hi)"
  by (simp add: token_in_eq numeric_inside_def split: option.splits)

lemma py_assert_ok: "(py_assert c m = Inr ()) = (c = Inr True)"
  by (simp add: py_assert_def split: sum.splits bool.splits)

lemma and_also_True: "(and_also a b = Inr True) = (a = Inr True \<and> b = Inr True)"
  by (simp add: and_also_def split: sum.splits bool.splits)

lemma and_then_ok: "(and_then a b = Inr v) = ((\<exists>u. a = Inr u) \<and> b = Inr v)"
  by (simp add: and_then_def split: sum.splits)

lemma validate_bbox_inner_ok:
  "(validate_bbox_inner flt bbox_string srs min_x max_x min_y max_y = Inr ()) =
     first_four_inside flt (split CHR '','' bbox_string) min_x max_x min_y max_y"
  by (auto simp add: validate_bbox_inner_def Let_def and_then_ok py_assert_ok and_also_True
        token_in_True first_four_inside_def)

lemma validate_srs_ok: "(validate_srs srs = Inr u) = (srs = ''EPSG:4326'' \<or> srs = ''EPSG:27700'')"
  by (auto simp add: validate_srs_def VALID_SPATIAL_REFERENCE_SYSTEMS_def)

lemma validate_bbox_ok:
  "(validate_bbox flt bbox_string srs = Inr ()) =
     ((srs = ''EPSG:4326'' \<and> first_four_inside flt (split CHR '','' bbox_string) (-7) 2 49 61) \<or>
      (srs = ''EPSG:27700'' \<and> first_four_inside flt (split CHR '','' bbox_string) 0 700000 0 1250000))"
  by (auto simp add: validate_bbox_def and_then_ok validate_srs_ok validate_bbox_inner_ok)

text \<open>
  C2. Under a CRS identifier other than \<open>EPSG:4326\<close> and \<open>EPSG:27700\<close>, \<open>validate_bbox\<close> and
  \<open>validate_polygon_string\<close> raise the \<open>AssertionError\<close> of \<open>validate_srs\<close>, whatever the
  bbox or polygon string is and whatever \<open>float\<close> would do on its tokens: the coordinate
  text is never looked at.
\<close>

theorem unsupported_crs_fails_first:
  assumes "srs \<noteq> ''EPSG:4326''" and "srs \<noteq> ''EPSG:27700''"
  shows "validate_bbox flt bbox_string srs = Inl (AssertionError (srs_msg srs)) \<and>
         validate_polygon_string flt polygon_string srs = Inl (AssertionError (srs_msg srs))"
  using assms
  by (simp add: validate_bbox_def validate_polygon_string_def validate_srs_def and_then_def
        VALID_SPATIAL_REFERENCE_SYSTEMS_def)

theorem unsupported_crs_fails_first_witness:
  "''EPSG:3857'' \<noteq> ''EPSG:4326'' \<and> ''EPSG:3857'' \<noteq> ''EPSG:27700'' \<and>
   validate_bbox py_float ''49.5,-6,60,1'' ''EPSG:3857'' = Inl (AssertionError (srs_msg ''EPSG:3857'')) \<and>
   validate_polygon_string py_float ''not a polygon'' ''EPSG:3857'' =
     Inl (AssertionError (srs_msg ''EPSG:3857''))"
  using unsupported_crs_fails_first [of "''EPSG:3857''" py_float "''49.5,-6,60,1''" "''not a polygon''"]
  by simp

subsection \<open>Bounding boxes: tokens after the fourth, corner order, malformed text\<close>

lemma token_in_take:
  "i < 4 \<Longrightarrow> token_in flt (take 4 toks) i lo hi = token_in flt toks i lo hi"
  by (simp add: token_in_def index_def)

lemma first_four_inside_take:
  "4 \<le> length toks \<Longrightarrow>
   first_four_inside flt (take 4 toks) min_x max_x min_y max_y =
   first_four_inside flt toks min_x max_x min_y max_y"
  by (simp add: first_four_inside_def)

lemma validate_bbox_inner_take:
  assumes "take 4 (split CHR '','' other) = take 4 (split CHR '','' bbox_string)"
  shows "validate_bbox_inner flt other srs min_x max_x min_y max_y =
         validate_bbox_inner flt bbox_string srs min_x max_x min_y max_y"
proof -
  have "token_in flt (split CHR '','' other) i lo hi =
        token_in flt (split CHR '','' bbox_string) i lo hi" if "i < 4" for i lo hi
    using token_in_take [OF that, of flt "split CHR '','' other" lo hi]
          token_in_take [OF that, of flt "split CHR '','' bbox_string" lo hi] assms
    by simp
  then show ?thesis
    by (simp add: validate_bbox_inner_def Let_def)
qed

lemma validate_bbox_take:
  assumes "take 4 (split CHR '','' other) = take 4 (split CHR '','' bbox_string)"
  shows "validate_bbox flt other srs = validate_bbox flt bbox_string srs"
  by (simp add: validate_bbox_def validate_bbox_inner_take [OF assms])

text \<open>
  C9. A bbox string with more than four comma-separated tokens passes \<open>validate_bbox\<close>
  under a supported CRS exactly when its first four tokens are numeric and lie strictly
  inside the extent (tokens 0 and 2 against the \<open>y\<close> range, tokens 1 and 3 against the \<open>x\<close>
  range). The tokens after the fourth are never read: any other string with the same first
  four tokens has the same result, success or exception.
\<close>

theorem bbox_tokens_after_fourth_ignored:
  assumes "4 < length (split CHR '','' bbox_string)"
  shows "((validate_bbox flt bbox_string ''EPSG:4326'' = Inr ()) =
            first_four_inside flt (take 4 (split CHR '','' bbox_string)) (-7) 2 49 61) \<and>
         ((validate_bbox flt bbox_string ''EPSG:27700'' = Inr ()) =
            first_four_inside flt (take 4 (split CHR '','' bbox_string)) 0 700000 0 1250000) \<and>
         (\<forall>other srs. take 4 (split CHR '','' other) = take 4 (split CHR '','' bbox_string) \<longrightarrow>
            validate_bbox flt other srs = validate_bbox flt bbox_string srs)"
proof -
  from assms have "4 \<le> length (split CHR '','' bbox_string)"
    by simp
  then have "(validate_bbox flt bbox_string ''EPSG:4326'' = Inr ()) =
           first_four_inside flt (take 4 (split CHR '','' bbox_string)) (-7) 2 49 61"
    and "(validate_bbox flt bbox_string ''EPSG:27700'' = Inr ()) =
           first_four_inside flt (take 4 (split CHR '','' bbox_string)) 0 700000 0 1250000"
    by (simp_all add: validate_bbox_ok first_four_inside_take)
  moreover have "validate_bbox flt other srs = validate_bbox flt bbox_string srs"
    if "take 4 (split CHR '','' other) = take 4 (split CHR '','' bbox_string)" for other srs
    using that by (rule validate_bbox_take)
  ultimately show ?thesis
    by blast
qed

text \<open>The bbox \<open>49.5,-6,60,1\<close> followed by a non-numeric and an out-of-range token.\<close>

theorem bbox_tokens_after_fourth_ignored_witness:
  "4 < length (split CHR '','' ''49.5,-6,60,1,north,999'') \<and>
   validate_bbox py_float ''49.5,-6,60,1,north,999'' ''EPSG:4326'' = Inr () \<and>
   validate_bbox py_float ''49.5,-6,60,1'' ''EPSG:4326'' = Inr ()"
proof -
  have len: "4 < length (split CHR '','' ''49.5,-6,60,1,north,999'')"
    by simp
  have same: "take 4 (split CHR '','' ''49.5,-6,60,1'') =
              take 4 (split CHR '','' ''49.5,-6,60,1,north,999'')"
    by simp
  have inside: "first_four_inside py_float
                  (take 4 (split CHR '','' ''49.5,-6,60,1,north,999'')) (-7) 2 49 61"
    by code_simp
  from bbox_tokens_after_fourth_ignored [OF len, where flt = py_float]
  have "validate_bbox py_float ''49.5,-6,60,1,north,999'' ''EPSG:4326'' = Inr ()"
    and "validate_bbox py_float ''49.5,-6,60,1'' ''EPSG:4326'' =
         validate_bbox py_float ''49.5,-6,60,1,north,999'' ''EPSG:4326''"
    using inside same by blast+
  with len show ?thesis
    by simp
qed

lemma first_four_inside_swap:
  "first_four_inside flt [a, b, c, d] min_x max_x min_y max_y \<Longrightarrow>
   first_four_inside flt [c, d, a, b] min_x max_x min_y max_y \<and>
   first_four_inside flt [c, b, a, d] min_x max_x min_y max_y \<and>
   first_four_inside flt [a, d, c, b] min_x max_x min_y max_y"
  by (simp add: first_four_inside_def)

text \<open>
  C10. \<open>validate_bbox\<close> compares no value with another: when the four values of a
  four-token bbox string lie strictly inside the extent, the string passes, and so does
  the string with the two pairs exchanged, and the strings with only the first or only the
  second values of the pairs exchanged.
\<close>

theorem bbox_corner_order_immaterial:
  assumes "split CHR '','' bbox_string = [sw1, sw2, ne1, ne2]"
    and "(srs = ''EPSG:4326'' \<and> first_four_inside flt [sw1, sw2, ne1, ne2] (-7) 2 49 61) \<or>
         (srs = ''EPSG:27700'' \<and> first_four_inside flt [sw1, sw2, ne1, ne2] 0 700000 0 1250000)"
    and "split CHR '','' swapped = [ne1, ne2, sw1, sw2] \<or>
         split CHR '','' swapped = [ne1, sw2, sw1, ne2] \<or>
         split CHR '','' swapped = [sw1, ne2, ne1, sw2]"
  shows "validate_bbox flt bbox_string srs = Inr () \<and> validate_bbox flt swapped srs = Inr ()"
proof -
  from assms(1,2) have "validate_bbox flt bbox_string srs = Inr ()"
    by (auto simp add: validate_bbox_ok)
  moreover from assms(2,3) have "validate_bbox flt swapped srs = Inr ()"
    by (auto simp add: validate_bbox_ok dest: first_four_inside_swap)
  ultimately show ?thesis ..
qed

theorem bbox_corner_order_immaterial_witness:
  "split CHR '','' ''49.5,-6,60,1'' = [''49.5'', ''-6'', ''60'', ''1''] \<and>
   first_four_inside py_float [''49.5'', ''-6'', ''60'', ''1''] (-7) 2 49 61 \<and>
   split CHR '','' ''60,1,49.5,-6'' = [''60'', ''1'', ''49.5'', ''-6''] \<and>
   validate_bbox py_float ''49.5,-6,60,1'' ''EPSG:4326'' = Inr () \<and>
   validate_bbox py_float ''60,1,49.5,-6'' ''EPSG:4326'' = Inr ()"
proof -
  have a: "split CHR '','' ''49.5,-6,60,1'' = [''49.5'', ''-6'', ''60'', ''1'']"
    by simp
  have b: "first_four_inside py_float [''49.5'', ''-6'', ''60'', ''1''] (-7) 2 49 61"
    by code_simp
  have c: "split CHR '','' ''60,1,49.5,-6'' = [''60'', ''1'', ''49.5'', ''-6'']"
    by simp
  from bbox_corner_order_immaterial
         [where bbox_string = "''49.5,-6,60,1''" and srs = "''EPSG:4326''" and flt = py_float
            and swapped = "''60,1,49.5,-6''", OF a] b c
  have "validate_bbox py_float ''49.5,-6,60,1'' ''EPSG:4326'' = Inr () \<and>
        validate_bbox py_float ''60,1,49.5,-6'' ''EPSG:4326'' = Inr ()"
    by blast
  with a b c show ?thesis
    by blast
qed

lemma token_in_failure:
  assumes "i < 4" and "token_in flt toks i lo hi = Inl e"
  shows "e = IndexError ''list index out of range'' \<or> e \<in> ValueError ` {t \<in> set (take 4 toks). flt t = None}"
proof (cases "i < length toks")
  case True
  with assms(1) have "take 4 toks ! i \<in> set (take 4 toks)"
    by (intro nth_mem) simp
  with assms(1) have "toks ! i \<in> set (take 4 toks)"
    by simp
  with assms(2) True show ?thesis
    by (auto simp add: token_in_eq split: option.splits)
next
  case False
  with assms(2) show ?thesis by (simp add: token_in_eq)
qed

lemma and_also_failure:
  "and_also a b = Inl e \<Longrightarrow> a = Inl e \<or> b = Inl e"
  by (auto simp add: and_also_def split: sum.splits bool.splits)

lemma py_assert_failure:
  "py_assert c (Inr m) = Inl e \<Longrightarrow> c = Inl e \<or> e = AssertionError m"
  by (auto simp add: py_assert_def split: sum.splits bool.splits)

lemma and_then_failure:
  "and_then a b = Inl e \<Longrightarrow> a = Inl e \<or> b = Inl e"
  by (auto simp add: and_then_def split: sum.splits)


lemma assert_pair_failure:
  assumes "py_assert (and_also (token_in flt toks i lo hi) (token_in flt toks j lo hi)) (Inr m) = Inl e"
    and "i < 4" and "j < 4"
  shows "e = AssertionError m \<or> e = IndexError ''list index out of range'' \<or>
         e \<in> ValueError ` {t \<in> set (take 4 toks). flt t = None}"
proof -
  from assms(1) consider "e = AssertionError m"
    | "token_in flt toks i lo hi = Inl e" | "token_in flt toks j lo hi = Inl e"
    by (auto dest!: py_assert_failure and_also_failure)
  then show ?thesis
  proof cases
    case 1
    then show ?thesis by simp
  next
    case 2
    from token_in_failure [OF assms(2) 2] show ?thesis by simp
  next
    case 3
    from token_in_failure [OF assms(3) 3] show ?thesis by simp
  qed
qed

lemma validate_bbox_inner_failure:
  assumes "bbox_msg srs = Inr fmt"
    and "validate_bbox_inner flt bbox_string srs min_x max_x min_y max_y = Inl e"
  shows "e \<in> bbox_failures flt (split CHR '','' bbox_string) min_x max_x min_y max_y fmt"
proof -
  let ?toks = "split CHR '','' bbox_string"
  let ?lat = "py_assert (and_also (token_in flt ?toks 0 min_y max_y) (token_in flt ?toks 2 min_y max_y))
       (Inr (latitude_text min_y max_y fmt))"
  let ?lon = "py_assert (and_also (token_in flt ?toks 1 min_x max_x) (token_in flt ?toks 3 min_x max_x))
       (Inr (longitude_text min_x max_x fmt))"
  have "validate_bbox_inner flt bbox_string srs min_x max_x min_y max_y = and_then ?lat ?lon"
    by (simp add: validate_bbox_inner_def Let_def assms(1) latitude_msg_def longitude_msg_def)
  with assms(2) have "and_then ?lat ?lon = Inl e"
    by simp
  from and_then_failure [OF this] have "?lat = Inl e \<or> ?lon = Inl e" .
  then show ?thesis
  proof
    assume "?lat = Inl e"
    from assert_pair_failure [OF this] show ?thesis
      by (auto simp add: bbox_failures_def)
  next
    assume "?lon = Inl e"
    from assert_pair_failure [OF this] show ?thesis
      by (auto simp add: bbox_failures_def)
  qed
qed

text \<open>
  C3 as stated fails: a bbox string of three numeric tokens inside the extent ends in the
  \<open>IndexError\<close> of \<open>bbox_list[3]\<close>, whose text says nothing about the bbox format.
\<close>

theorem bbox_three_tokens_counterexample:
  "validate_bbox py_float ''50,0,50'' ''EPSG:4326'' = Inl (IndexError ''list index out of range'')"
  by code_simp

text \<open>
  C3, amended. A bbox string with fewer than four tokens, or with a token among the first
  four that \<open>float\<close> rejects, never passes \<open>validate_bbox\<close> under a supported CRS. It ends
  in the \<open>IndexError\<close> of the missing token or the \<open>ValueError\<close> of a rejected token, neither
  of which carries the format text, or, when a token read before is outside the extent, in
  the \<open>AssertionError\<close> of that extent check, whose message ends with the format text.
\<close>

theorem bbox_malformed_fails:
  assumes "length (split CHR '','' bbox_string) < 4 \<or>
           (\<exists>t \<in> set (take 4 (split CHR '','' bbox_string)). flt t = None)"
  shows "(\<exists>e \<in> bbox_failures flt (split CHR '','' bbox_string) (-7) 2 49 61 bbox_format_4326.
            validate_bbox flt bbox_string ''EPSG:4326'' = Inl e) \<and>
         (\<exists>e \<in> bbox_failures flt (split CHR '','' bbox_string) 0 700000 0 1250000 bbox_format_27700.
            validate_bbox flt bbox_string ''EPSG:27700'' = Inl e)"
proof -
  have not_inside: "\<not> first_four_inside flt (split CHR '','' bbox_string) min_x max_x min_y max_y"
    for min_x max_x min_y max_y
  proof
    assume inside: "first_four_inside flt (split CHR '','' bbox_string) min_x max_x min_y max_y"
    then have "4 \<le> length (split CHR '','' bbox_string)"
      by (simp add: first_four_inside_def)
    with assms obtain i where "i < 4" and "flt (split CHR '','' bbox_string ! i) = None"
      by (auto simp add: in_set_conv_nth)
    then have "i = 0 \<or> i = 1 \<or> i = 2 \<or> i = 3"
      by arith
    with inside \<open>flt (split CHR '','' bbox_string ! i) = None\<close> show False
      by (auto simp add: first_four_inside_def numeric_inside_def)
  qed
  have fails: "\<exists>e \<in> bbox_failures flt (split CHR '','' bbox_string) min_x max_x min_y max_y fmt.
                 validate_bbox_inner flt bbox_string srs min_x max_x min_y max_y = Inl e"
    if "bbox_msg srs = Inr fmt" for srs fmt min_x max_x min_y max_y
  proof (cases "validate_bbox_inner flt bbox_string srs min_x max_x min_y max_y")
    case (Inl e)
    with validate_bbox_inner_failure [OF that Inl] show ?thesis
      by blast
  next
    case (Inr u)
    then have "validate_bbox_inner flt bbox_string srs min_x max_x min_y max_y = Inr ()"
      by simp
    with not_inside show ?thesis
      by (simp add: validate_bbox_inner_ok)
  qed
  have "validate_bbox flt bbox_string ''EPSG:4326'' =
          validate_bbox_inner flt bbox_string ''EPSG:4326'' (-7) 2 49 61"
    and "validate_bbox flt bbox_string ''EPSG:27700'' =
          validate_bbox_inner flt bbox_string ''EPSG:27700'' 0 700000 0 1250000"
    by (simp_all add: validate_bbox_def validate_srs_def and_then_def
          VALID_SPATIAL_REFERENCE_SYSTEMS_def)
  moreover have "bbox_msg ''EPSG:4326'' = Inr bbox_format_4326"
    and "bbox_msg ''EPSG:27700'' = Inr bbox_format_27700"
    by (simp_all add: bbox_msg_def)
  ultimately show ?thesis
    using fails by simp
qed

theorem bbox_malformed_fails_witness:
  "length (split CHR '','' ''50,0,50'') < 4 \<and>
   (\<exists>e \<in> bbox_failures py_float (split CHR '','' ''50,0,50'') (-7) 2 49 61 bbox_format_4326.
      validate_bbox py_float ''50,0,50'' ''EPSG:4326'' = Inl e)"
proof -
  have "length (split CHR '','' ''50,0,50'') < 4"
    by simp
  with bbox_malformed_fails [where bbox_string = "''50,0,50''" and flt = py_float] show ?thesis
    by blast
qed

subsection \<open>Extent checks\<close>

text \<open>
  C1 at the polygon string \<open>50,0 nan,0\<close> under \<open>EPSG:4326\<close>: the second vertex has the
  first-axis value not-a-number, which is not strictly inside \<open>(49, 61)\<close>, and
  \<open>validate_polygon_string\<close> returns normally, because \<open>max\<close> and \<open>min\<close> keep \<open>50.0\<close>.
  \<open>validate_bbox\<close>, which compares every value with the bounds, rejects the same values.
\<close>

theorem polygon_nan_vertex_accepted:
  "validate_polygon_string py_float ''50,0 nan,0'' ''EPSG:4326'' = Inr () \<and>
   parse_polygon_coords py_float ''50,0 nan,0'' = Inr [[Fin 50, Fin 0], [NaN, Fin 0]] \<and>
   \<not> strictly_inside NaN 49 61 \<and>
   validate_bbox py_float ''50,0,nan,0'' ''EPSG:4326'' =
     Inl (AssertionError (latitude_text 49 61 bbox_format_4326))"
  by code_simp

subsection \<open>Splitting and stripping\<close>

lemma split_nonempty: "split c s \<noteq> []"
  by (induction s) (simp_all add: Let_def)

lemma split_no_sep: "c \<notin> set a \<Longrightarrow> split c a = [a]"
  by (induction a) (auto simp add: Let_def)

lemma split_append_sep: "c \<notin> set a \<Longrightarrow> split c (a @ c # b) = a # split c b"
  by (induction a) (auto simp add: Let_def)

lemma split_append_free:
  "c \<notin> set a \<Longrightarrow> split c (a @ b) = (a @ hd (split c b)) # tl (split c b)"
  by (induction a) (auto simp add: Let_def split_nonempty)

lemma length_split: "length (split c s) = Suc (length (filter (\<lambda>x. x = c) s))"
  by (induction s) (auto simp add: Let_def split_nonempty)

lemma split_no_sep_inside: "c \<notin> set x" if "x \<in> set (split c s)"
  using that
proof (induction s arbitrary: x)
  case Nil
  then show ?case by simp
next
  case (Cons a s)
  then show ?case
    by (cases "split c s") (auto simp add: Let_def split_nonempty split: if_splits)
qed

lemma strip_leading: "isspace c \<Longrightarrow> strip (c # s) = strip s"
  by (simp add: strip_def)

lemma strip_unchanged:
  assumes "s \<noteq> []" and "\<not> isspace (hd s)" and "\<not> isspace (last s)"
  shows "strip s = s"
proof -
  from assms(1,2) have "dropWhile isspace s = s"
    by (cases s) simp_all
  moreover from assms(1,3) have "dropWhile isspace (rev s) = rev s"
    by (cases "rev s") (simp_all add: last_rev [symmetric] hd_rev)
  ultimately show ?thesis
    by (simp add: strip_def)
qed

lemma strip_no_newline: "CHR 0x0A \<notin> set s \<Longrightarrow> CHR 0x0A \<notin> set (strip s)"
  by (auto simp add: strip_def dest!: set_dropWhileD)

subsection \<open>The spatial filter\<close>

lemma colon_split_length: "(CHR '':'' \<in> set srs) = (1 < length (split CHR '':'' srs))"
  by (simp add: length_split filter_empty_conv)

lemma split_EPSG:
  assumes "CHR '':'' \<notin> set code"
  shows "split CHR '':'' (''EPSG:'' @ code) = [''EPSG'', code]"
  using split_append_sep [of "CHR '':''" "''EPSG''" code] split_no_sep [OF assms]
  by simp

lemma split_join:
  assumes "ls \<noteq> []" and "\<forall>l \<in> set ls. c \<notin> set l"
  shows "split c (join [c] ls) = ls"
  using assms
proof (induction ls)
  case Nil
  then show ?case by simp
next
  case (Cons x ls)
  show ?case
  proof (cases ls)
    case Nil
    with Cons.prems show ?thesis
      by (simp add: split_no_sep)
  next
    case (Cons y ys)
    with Cons.IH Cons.prems have "split c (join [c] (y # ys)) = y # ys"
      by simp
    with Cons.prems split_append_sep [of c x "join [c] (y # ys)"] show ?thesis
      unfolding Cons by simp
  qed
qed

lemma xml_template_join:
  \<open>xml_template srs_num poly_string = join [CHR 0x0A]
     [''<ogc:Filter>'',
      ''                <ogc:Intersects>'',
      ''                    <ogc:PropertyName>SHAPE</ogc:PropertyName>'',
      ''                    <gml:Polygon srsName="urn:ogc:def:crs:EPSG::'' @ srs_num @ ''">'',
      ''                        <gml:outerBoundaryIs>'',
      ''                            <gml:LinearRing>'',
      ''                                <gml:coordinates>'' @ poly_string @ ''</gml:coordinates>'',
      ''                            </gml:LinearRing>'',
      ''                        </gml:outerBoundaryIs>'',
      ''                    </gml:Polygon>'',
      ''                </ogc:Intersects>'',
      ''            </ogc:Filter>'']\<close>
  by (simp add: xml_template_def)

lemma template_lines:
  assumes "CHR 0x0A \<notin> set srs_num" and "CHR 0x0A \<notin> set poly_string"
  shows \<open>split (CHR 0x0A) (xml_template srs_num poly_string) =
     [''<ogc:Filter>'',
      ''                <ogc:Intersects>'',
      ''                    <ogc:PropertyName>SHAPE</ogc:PropertyName>'',
      ''                    <gml:Polygon srsName="urn:ogc:def:crs:EPSG::'' @ srs_num @ ''">'',
      ''                        <gml:outerBoundaryIs>'',
      ''                            <gml:LinearRing>'',
      ''                                <gml:coordinates>'' @ poly_string @ ''</gml:coordinates>'',
      ''                            </gml:LinearRing>'',
      ''                        </gml:outerBoundaryIs>'',
      ''                    </gml:Polygon>'',
      ''                </ogc:Intersects>'',
      ''            </ogc:Filter>'']\<close>
proof -
  have "CHR 0x0A \<notin> set l" if \<open>l \<in> set
     [''<ogc:Filter>'',
      ''                <ogc:Intersects>'',
      ''                    <ogc:PropertyName>SHAPE</ogc:PropertyName>'',
      ''                    <gml:Polygon srsName="urn:ogc:def:crs:EPSG::'' @ srs_num @ ''">'',
      ''                        <gml:outerBoundaryIs>'',
      ''                            <gml:LinearRing>'',
      ''                                <gml:coordinates>'' @ poly_string @ ''</gml:coordinates>'',
      ''                            </gml:LinearRing>'',
      ''                        </gml:outerBoundaryIs>'',
      ''                    </gml:Polygon>'',
      ''                </ogc:Intersects>'',
      ''            </ogc:Filter>'']\<close> for l
    using that assms by auto
  then show ?thesis
    unfolding xml_template_join by (intro split_join) simp_all
qed

lemma strip_open_line:
  assumes "\<not> isspace a" and "\<not> isspace z"
  shows "strip (a # s @ t @ u @ [z]) = a # s @ t @ u @ [z]"
  using assms by (intro strip_unchanged) simp_all

lemma strip_Polygon_line:
  \<open>strip (''                    <gml:Polygon srsName="urn:ogc:def:crs:EPSG::'' @ srs_num @ ''">'') =
     ''<gml:Polygon srsName="urn:ogc:def:crs:EPSG::'' @ srs_num @ ''">''\<close>
proof -
  have sp: "isspace CHR '' ''" and lt: "\<not> isspace CHR ''<''" and gt: "\<not> isspace CHR ''>''"
    by (simp_all add: isspace_def whitespace_def)
  from strip_open_line [OF lt gt, of \<open>''gml:Polygon srsName="urn:ogc:def:crs:EPSG::''\<close> srs_num \<open>[CHR 0x22]\<close>]
  show ?thesis
    by (simp add: strip_leading [OF sp])
qed

lemma strip_coordinates_line:
  \<open>strip (''                                <gml:coordinates>'' @ poly_string @ ''</gml:coordinates>'') =
     ''<gml:coordinates>'' @ poly_string @ ''</gml:coordinates>''\<close>
proof -
  have sp: "isspace CHR '' ''" and lt: "\<not> isspace CHR ''<''" and gt: "\<not> isspace CHR ''>''"
    by (simp_all add: isspace_def whitespace_def)
  from strip_open_line [OF lt gt, of \<open>''gml:coordinates>''\<close> poly_string \<open>''</gml:coordinates''\<close>]
  show ?thesis
    by (simp add: strip_leading [OF sp])
qed

lemma strip_closed_lines:
  "strip ''<ogc:Filter>'' = ''<ogc:Filter>''"
  "strip ''                <ogc:Intersects>'' = ''<ogc:Intersects>''"
  "strip ''                    <ogc:PropertyName>SHAPE</ogc:PropertyName>'' =
     ''<ogc:PropertyName>SHAPE</ogc:PropertyName>''"
  "strip ''                        <gml:outerBoundaryIs>'' = ''<gml:outerBoundaryIs>''"
  "strip ''                            <gml:LinearRing>'' = ''<gml:LinearRing>''"
  "strip ''                            </gml:LinearRing>'' = ''</gml:LinearRing>''"
  "strip ''                        </gml:outerBoundaryIs>'' = ''</gml:outerBoundaryIs>''"
  "strip ''                    </gml:Polygon>'' = ''</gml:Polygon>''"
  "strip ''                </ogc:Intersects>'' = ''</ogc:Intersects>''"
  "strip ''            </ogc:Filter>'' = ''</ogc:Filter>''"
  by (simp_all add: strip_def isspace_def whitespace_def)

lemma create_polygon_filter_plain:
  assumes "CHR '':'' \<notin> set code" and "CHR 0x0A \<notin> set code" and "CHR 0x0A \<notin> set polygon_string"
  shows "create_polygon_filter polygon_string (''EPSG:'' @ code) =
         Inr (single_line_filter code polygon_string)"
proof -
  have "create_polygon_filter polygon_string (''EPSG:'' @ code) =
        Inr (concat (map strip (split (CHR 0x0A) (xml_template code polygon_string))))"
    by (simp add: create_polygon_filter_def split_EPSG [OF assms(1)] index_def bind_def
          del: append.simps)
  also have "concat (map strip (split (CHR 0x0A) (xml_template code polygon_string))) =
        single_line_filter code polygon_string"
    unfolding template_lines [OF assms(2,3)]
    by (simp add: strip_closed_lines strip_Polygon_line strip_coordinates_line
          single_line_filter_def del: append.simps)
  finally show ?thesis .
qed

lemma stripped_lines_no_newline: "CHR 0x0A \<notin> set (concat (map strip (split (CHR 0x0A) s)))"
proof
  assume "CHR 0x0A \<in> set (concat (map strip (split (CHR 0x0A) s)))"
  then obtain x where x: "x \<in> set (split (CHR 0x0A) s)" and "CHR 0x0A \<in> set (strip x)"
    by auto
  with strip_no_newline have "CHR 0x0A \<in> set x"
    by blast
  with split_no_sep_inside [OF x] show False
    by simp
qed

lemma create_polygon_filter_single_line:
  assumes "create_polygon_filter polygon_string srs = Inr xml"
  shows "CHR 0x0A \<notin> set xml"
proof -
  from assms obtain srs_num where
    "xml = concat (map strip (split (CHR 0x0A) (xml_template srs_num polygon_string)))"
    by (auto simp add: create_polygon_filter_def bind_def Let_def split: sum.splits)
  then show ?thesis
    by (simp only: stripped_lines_no_newline not_False_eq_True)
qed

lemma create_polygon_filter_total:
  "create_polygon_filter polygon_string srs =
     (if CHR '':'' \<in> set srs
      then Inr (concat (map strip (split (CHR 0x0A)
                  (xml_template (split CHR '':'' srs ! 1) polygon_string))))
      else Inl (IndexError ''list index out of range''))"
  by (simp add: create_polygon_filter_def bind_def index_def colon_split_length)

text \<open>
  C8. \<open>create_polygon_filter\<close> returns a string exactly when \<open>srs\<close> contains a colon: with
  a colon it returns normally, without one \<open>srs.split(":")[1]\<close> raises \<open>IndexError\<close>. Both
  supported identifiers contain a colon, so under them the failure cannot occur.
\<close>

theorem create_polygon_filter_needs_colon:
  "(CHR '':'' \<in> set srs \<longrightarrow> (\<exists>xml. create_polygon_filter polygon_string srs = Inr xml)) \<and>
   (CHR '':'' \<notin> set srs \<longrightarrow>
      create_polygon_filter polygon_string srs = Inl (IndexError ''list index out of range'')) \<and>
   (srs \<in> set VALID_SPATIAL_REFERENCE_SYSTEMS \<longrightarrow>
      (\<exists>xml. create_polygon_filter polygon_string srs = Inr xml))"
proof -
  have "CHR '':'' \<in> set srs" if "srs \<in> set VALID_SPATIAL_REFERENCE_SYSTEMS"
    using that by (auto simp add: VALID_SPATIAL_REFERENCE_SYSTEMS_def)
  then show ?thesis
    by (auto simp add: create_polygon_filter_total)
qed

theorem create_polygon_filter_needs_colon_witness:
  "CHR '':'' \<in> set ''EPSG:27700'' \<and> ''EPSG:27700'' \<in> set VALID_SPATIAL_REFERENCE_SYSTEMS \<and>
   (\<exists>xml. create_polygon_filter ''1,2 3,4 5,6'' ''EPSG:27700'' = Inr xml) \<and>
   CHR '':'' \<notin> set ''EPSG27700'' \<and>
   create_polygon_filter ''1,2 3,4 5,6'' ''EPSG27700'' = Inl (IndexError ''list index out of range'')"
  using create_polygon_filter_needs_colon [of "''EPSG:27700''" "''1,2 3,4 5,6''"]
    create_polygon_filter_needs_colon [of "''EPSG27700''" "''1,2 3,4 5,6''"]
  by (simp add: VALID_SPATIAL_REFERENCE_SYSTEMS_def)

text \<open>
  C4 as stated fails: a polygon string with a line break in it does not appear verbatim.
  The lines are split and stripped after the substitution, so the line break and the space
  next to it are lost, and the coordinates element reads \<open>50,051,0 51,1\<close>.
\<close>

theorem polygon_filter_newline_counterexample:
  "create_polygon_filter (''50,0'' @ [CHR 0x0A] @ '' 51,0 51,1'') ''EPSG:4326'' =
     Inr (single_line_filter ''4326'' ''50,051,0 51,1'') \<and>
   CHR 0x0A \<in> set (''50,0'' @ [CHR 0x0A] @ '' 51,0 51,1'') \<and>
   CHR 0x0A \<notin> set (single_line_filter ''4326'' ''50,051,0 51,1'')"
  by code_simp

text \<open>
  C4, amended. For a polygon string without a line break and an identifier \<open>EPSG:<code>\<close>
  whose code has no colon and no line break, \<open>create_polygon_filter\<close> returns the one-line
  filter: the stripped template lines one after the other, with the code after
  \<open>urn:ogc:def:crs:EPSG::\<close> and the polygon string, unescaped, between
  \<open><gml:coordinates>\<close> and \<open></gml:coordinates>\<close>. Whatever the arguments, a returned string has
  no line break.
\<close>

theorem create_polygon_filter_one_line:
  assumes "CHR '':'' \<notin> set code" and "CHR 0x0A \<notin> set code" and "CHR 0x0A \<notin> set polygon_string"
  shows "create_polygon_filter polygon_string (''EPSG:'' @ code) =
           Inr (single_line_filter code polygon_string) \<and>
         (\<forall>other srs xml. create_polygon_filter other srs = Inr xml \<longrightarrow> CHR 0x0A \<notin> set xml)"
  using create_polygon_filter_plain [OF assms] create_polygon_filter_single_line
  by blast

text \<open>The example of the specification is the instance \<open>code = 4326\<close>.\<close>

theorem create_polygon_filter_one_line_witness:
  "CHR '':'' \<notin> set ''4326'' \<and> CHR 0x0A \<notin> set ''4326'' \<and>
   CHR 0x0A \<notin> set ''49.9,-1.1 50.1,-1.1 50.1,-0.9 49.9,-0.9'' \<and>
   create_polygon_filter ''49.9,-1.1 50.1,-1.1 50.1,-0.9 49.9,-0.9'' ''EPSG:4326'' =
     Inr (single_line_filter ''4326'' ''49.9,-1.1 50.1,-1.1 50.1,-0.9 49.9,-0.9'')"
  using create_polygon_filter_one_line
          [of "''4326''" "''49.9,-1.1 50.1,-1.1 50.1,-0.9 49.9,-0.9''"]
  by simp

subsection \<open>GeoJSON features\<close>

lemma lower_chr_letters:
  "(lower_chr c = CHR ''p'') = same_letter c CHR ''P''"
  "(lower_chr c = CHR ''o'') = same_letter c CHR ''o''"
  "(lower_chr c = CHR ''l'') = same_letter c CHR ''l''"
  "(lower_chr c = CHR ''y'') = same_letter c CHR ''y''"
  "(lower_chr c = CHR ''g'') = same_letter c CHR ''g''"
  "(lower_chr c = CHR ''n'') = same_letter c CHR ''n''"
  by (auto simp add: lower_chr_def same_letter_def lower_table_def split: if_splits)

lemma lower_polygon: "(lower t = ''polygon'') = equal_ignoring_case t ''Polygon''"
  by (auto simp add: lower_def equal_ignoring_case_def map_eq_Cons_conv list_all2_Cons2
        lower_chr_letters)

lemma get_feature_geometry_type_present:
  "geometry feature = Some g \<Longrightarrow> type g = Some t \<Longrightarrow> get_feature_geometry_type feature = Inr t"
  by (simp add: get_feature_geometry_type_def getitem_def bind_def)

text \<open>
  C6 as stated fails: on a Polygon feature \<open>validate_geojson_polygon\<close> returns \<open>None\<close>, not
  the feature.
\<close>

theorem polygon_feature_returns_none_counterexample:
  "validate_geojson_polygon
     \<lparr>geometry = Some \<lparr>type = Some ''Polygon'',
                       coordinates = Some [[[0, 0], [1, 0], [1, 1], [0, 0 :: int]]]\<rparr>,
      properties = Some (PDict [(''name'', ''A'')])\<rparr> = Inr None \<and>
   validate_geojson_polygon
     \<lparr>geometry = Some \<lparr>type = Some ''Polygon'',
                       coordinates = Some [[[0, 0], [1, 0], [1, 1], [0, 0 :: int]]]\<rparr>,
      properties = Some (PDict [(''name'', ''A'')])\<rparr> \<noteq>
   Inr (Some \<lparr>geometry = Some \<lparr>type = Some ''Polygon'',
                       coordinates = Some [[[0, 0], [1, 0], [1, 1], [0, 0 :: int]]]\<rparr>,
      properties = Some (PDict [(''name'', ''A'')])\<rparr>)"
  by (simp add: validate_geojson_polygon_def get_feature_geometry_type_def getitem_def bind_def
        lower_def lower_chr_def lower_table_def)

text \<open>
  C6, amended. For a feature whose \<open>geometry.type\<close> is present: when the type equals
  \<open>Polygon\<close> up to letter case, \<open>validate_geojson_polygon\<close> returns normally, with the value
  \<open>None\<close>; otherwise it raises the exception that says the geometry is not a valid GeoJSON
  Polygon feature.
\<close>

theorem validate_geojson_polygon_by_type:
  assumes "geometry feature = Some g" and "type g = Some t"
  shows "(equal_ignoring_case t ''Polygon'' \<longrightarrow> validate_geojson_polygon feature = Inr None) \<and>
         (\<not> equal_ignoring_case t ''Polygon'' \<longrightarrow>
            validate_geojson_polygon feature =
              Inl (Exception
                ''Geometry to fetch intersecting features is not a valid GeoJSON Polygon Feature''))"
  using get_feature_geometry_type_present [OF assms]
  by (simp add: validate_geojson_polygon_def bind_def Let_def lower_polygon)

theorem validate_geojson_polygon_by_type_witness:
  "equal_ignoring_case ''POLYGON'' ''Polygon'' \<and>
   validate_geojson_polygon
     \<lparr>geometry = Some \<lparr>type = Some ''POLYGON'', coordinates = Some [[[0, 0], [1, 1 :: int]]]\<rparr>,
      properties = Some (PDict [(''name'', ''A'')])\<rparr> = Inr None \<and>
   \<not> equal_ignoring_case ''LineString'' ''Polygon'' \<and>
   validate_geojson_polygon
     \<lparr>geometry = Some \<lparr>type = Some ''LineString'', coordinates = Some [[[0, 0], [1, 1 :: int]]]\<rparr>,
      properties = Some (PDict [(''name'', ''A'')])\<rparr> =
     Inl (Exception
       ''Geometry to fetch intersecting features is not a valid GeoJSON Polygon Feature'')"
proof -
  have yes: "equal_ignoring_case ''POLYGON'' ''Polygon''"
    and no: "\<not> equal_ignoring_case ''LineString'' ''Polygon''"
    by (simp_all add: equal_ignoring_case_def same_letter_def lower_table_def)
  from validate_geojson_polygon_by_type
    [of "\<lparr>geometry = Some \<lparr>type = Some ''POLYGON'', coordinates = Some [[[0, 0], [1, 1 :: int]]]\<rparr>,
          properties = Some (PDict [(''name'', ''A'')])\<rparr>"
        "\<lparr>type = Some ''POLYGON'', coordinates = Some [[[0, 0], [1, 1 :: int]]]\<rparr>" "''POLYGON''"]
    validate_geojson_polygon_by_type
    [of "\<lparr>geometry = Some \<lparr>type = Some ''LineString'', coordinates = Some [[[0, 0], [1, 1 :: int]]]\<rparr>,
          properties = Some (PDict [(''name'', ''A'')])\<rparr>"
        "\<lparr>type = Some ''LineString'', coordinates = Some [[[0, 0], [1, 1 :: int]]]\<rparr>" "''LineString''"]
    yes no
  show ?thesis
    by simp
qed

lemma map_err_Inr: "(map_err f xs = Inr ys) = (map f xs = map Inr ys)"
proof (induction xs arbitrary: ys)
  case Nil
  then show ?case by auto
next
  case (Cons x xs)
  note IH = this
  show ?case
  proof (cases ys)
    case Nil
    then show ?thesis
      by (simp split: sum.splits)
  next
    case (Cons y ys')
    with IH [of ys'] show ?thesis
      by (auto split: sum.splits)
  qed
qed

lemma map_err_length: "map_err f xs = Inr ys \<Longrightarrow> length ys = length xs"
  by (auto simp add: map_err_Inr dest: map_eq_imp_length_eq)

lemma map_err_nth:
  assumes "map_err f xs = Inr ys" and "i < length xs"
  shows "f (xs ! i) = Inr (ys ! i)"
proof -
  from assms(1) have eq: "map f xs = map Inr ys"
    by (simp add: map_err_Inr)
  with assms(2) have "i < length ys"
    using map_eq_imp_length_eq by fastforce
  with assms(2) eq nth_map [of i xs f] nth_map [of i ys Inr] show ?thesis
    by simp
qed

lemma map_err_all:
  assumes "\<forall>x \<in> set xs. \<exists>y. f x = Inr y"
  shows "\<exists>ys. map_err f xs = Inr ys"
  using assms by (induction xs) auto

lemma convert_single_feature:
  assumes "has_ring_and_properties f"
  shows "\<exists>g0 ring rest p.
           geometry f = Some g0 \<and> coordinates g0 = Some (ring # rest) \<and> properties f = Some p \<and>
           convert_single_feature_to_geojson geometry_type f = Inr (Feature (geometry_type ring) p)"
proof -
  from assms obtain g0 cs p where "geometry f = Some g0" and "coordinates g0 = Some cs"
    and "cs \<noteq> []" and "properties f = Some p"
    by (auto simp add: has_ring_and_properties_def split: option.splits)
  moreover from \<open>cs \<noteq> []\<close> obtain ring rest where "cs = ring # rest"
    by (cases cs) auto
  ultimately show ?thesis
    by (simp add: convert_single_feature_to_geojson_def getitem_def bind_def index_def)
qed

text \<open>
  C5 as stated fails: the features that \<open>convert_features_to_geojson\<close> returns are typed
  \<open>LineString\<close>, the default \<open>geometry_type\<close>, not \<open>Polygon\<close>.
\<close>

theorem line_string_output_counterexample:
  "convert_features_to_geojson
     [\<lparr>geometry = Some \<lparr>type = Some ''LineString'',
                        coordinates = Some [[[0, 0], [1, 0], [1, 1], [0, 0 :: int]]]\<rparr>,
       properties = Some (PDict [(''name'', ''A'')])\<rparr>] =
   Inr [\<lparr>geometry = Some \<lparr>type = Some ''LineString'',
                            coordinates = Some [[0, 0], [1, 0], [1, 1], [0, 0]]\<rparr>,
         properties = Some (PDict [(''name'', ''A'')])\<rparr>]"
  by (simp add: convert_features_to_geojson_def convert_single_feature_to_geojson_def getitem_def
        bind_def index_def Feature_def LineString_def properties_or_empty_def)

text \<open>
  C5, amended. For a list of features that each have a geometry with a non-empty
  \<open>coordinates\<close> list and a \<open>properties\<close> key, \<open>convert_features_to_geojson\<close> returns a
  list of the same length in the same order. The feature at each position is typed
  \<open>LineString\<close>, has the first element of the input's coordinates as coordinates, and has
  the input's properties, where \<open>None\<close> has become the empty dictionary.
\<close>

theorem convert_features_keeps_count_and_order:
  assumes "\<forall>f \<in> set features. has_ring_and_properties f"
  shows "\<exists>out. convert_features_to_geojson features = Inr out \<and> length out = length features \<and>
           (\<forall>i < length features.
              \<exists>g0 ring rest p.
                geometry (features ! i) = Some g0 \<and> coordinates g0 = Some (ring # rest) \<and>
                properties (features ! i) = Some p \<and>
                geometry (out ! i) = Some \<lparr>type = Some ''LineString'', coordinates = Some ring\<rparr> \<and>
                properties (out ! i) = Some (properties_or_empty p) \<and>
                (p \<noteq> PNone \<longrightarrow> properties (out ! i) = properties (features ! i)))"
proof -
  let ?conv = "convert_single_feature_to_geojson LineString"
  from assms have "\<forall>f \<in> set features. \<exists>y. ?conv f = Inr y"
    using convert_single_feature by blast
  then obtain out where out: "map_err ?conv features = Inr out"
    using map_err_all by blast
  then have len: "length out = length features"
    by (rule map_err_length)
  have "\<exists>g0 ring rest p.
          geometry (features ! i) = Some g0 \<and> coordinates g0 = Some (ring # rest) \<and>
          properties (features ! i) = Some p \<and>
          geometry (out ! i) = Some \<lparr>type = Some ''LineString'', coordinates = Some ring\<rparr> \<and>
          properties (out ! i) = Some (properties_or_empty p) \<and>
          (p \<noteq> PNone \<longrightarrow> properties (out ! i) = properties (features ! i))"
    if "i < length features" for i
  proof -
    from that assms have "has_ring_and_properties (features ! i)"
      by simp
    from convert_single_feature [OF this, of LineString] obtain g0 ring rest p where
      "geometry (features ! i) = Some g0" "coordinates g0 = Some (ring # rest)"
      "properties (features ! i) = Some p"
      "?conv (features ! i) = Inr (Feature (LineString ring) p)"
      by blast
    moreover from out that have "?conv (features ! i) = Inr (out ! i)"
      by (rule map_err_nth)
    ultimately show ?thesis
      by (cases p) (simp_all add: Feature_def LineString_def properties_or_empty_def)
  qed
  with out len show ?thesis
    by (simp add: convert_features_to_geojson_def)
qed

theorem convert_features_keeps_count_and_order_witness:
  "has_ring_and_properties
     \<lparr>geometry = Some \<lparr>type = Some ''LineString'',
                       coordinates = Some [[[0, 0], [1, 0], [1, 1], [0, 0 :: int]]]\<rparr>,
      properties = Some (PDict [(''name'', ''A'')])\<rparr> \<and>
   has_ring_and_properties
     \<lparr>geometry = Some \<lparr>type = Some ''LineString'',
                       coordinates = Some [[[5, 5], [6, 5], [6, 6], [5, 5 :: int]]]\<rparr>,
      properties = Some (PNone :: string props)\<rparr> \<and>
   (\<exists>out. convert_features_to_geojson
            [\<lparr>geometry = Some \<lparr>type = Some ''LineString'',
                                  coordinates = Some [[[0, 0], [1, 0], [1, 1], [0, 0 :: int]]]\<rparr>,
                 properties = Some (PDict [(''name'', ''A'')])\<rparr>,
               \<lparr>geometry = Some \<lparr>type = Some ''LineString'',
                                  coordinates = Some [[[5, 5], [6, 5], [6, 6], [5, 5]]]\<rparr>,
                 properties = Some PNone\<rparr>] = Inr out \<and> length out = 2)"
proof -
  have wf: "\<forall>f \<in> set [\<lparr>geometry = Some \<lparr>type = Some ''LineString'',
                                  coordinates = Some [[[0, 0], [1, 0], [1, 1], [0, 0 :: int]]]\<rparr>,
                 properties = Some (PDict [(''name'', ''A'')])\<rparr>,
               \<lparr>geometry = Some \<lparr>type = Some ''LineString'',
                                  coordinates = Some [[[5, 5], [6, 5], [6, 6], [5, 5]]]\<rparr>,
                 properties = Some PNone\<rparr>]. has_ring_and_properties f"
    by (simp add: has_ring_and_properties_def)
  from convert_features_keeps_count_and_order [OF wf] wf show ?thesis
    by auto
qed

subsection \<open>Polygon strings from GeoJSON, and back\<close>

lemma join_split: "join [c] (split c s) = s"
proof (induction s)
  case Nil
  then show ?case by simp
next
  case (Cons x s)
  then show ?case
    by (cases "split c s"; cases "tl (split c s)") (auto simp add: Let_def)
qed

lemma join_pairs:
  "map (\<lambda>coord. join '','' (map str (rev coord))) (map (\<lambda>(x, y). [x, y]) pairs) =
   map (\<lambda>(x, y). str y @ '','' @ str x) pairs"
  by (induction pairs) auto

lemma geojson_polygon_to_string_ring:
  "geojson_polygon_to_string str
     \<lparr>geometry = Some \<lparr>type = ty, coordinates = Some (ring # holes)\<rparr>, properties = props\<rparr> =
   Inr (join '' '' (map (\<lambda>coord. join '','' (map str (rev coord))) ring))"
  by (simp add: geojson_polygon_to_string_def getitem_def bind_def index_def)

lemma canonical_vertex:
  assumes "\<forall>t \<in> set toks. map_option str (flt t) = Some t"
  shows "\<exists>vs. map_err (to_float flt) toks = Inr vs \<and> map str vs = toks"
  using assms by (induction toks) (auto simp add: to_float_def)

lemma canonical_vertices:
  assumes "\<forall>vertex \<in> set vertices. \<forall>t \<in> set (split CHR '','' vertex).
             map_option str (flt t) = Some t"
  shows "\<exists>ring. map_err (\<lambda>coords. map_err (to_float flt) (split CHR '','' coords)) vertices =
                  Inr ring \<and>
               map (\<lambda>coord. join '','' (map str coord)) ring = vertices"
  using assms
proof (induction vertices)
  case Nil
  then show ?case by simp
next
  case (Cons v vertices)
  then obtain ring where ring:
    "map_err (\<lambda>coords. map_err (to_float flt) (split CHR '','' coords)) vertices = Inr ring"
    "map (\<lambda>coord. join '','' (map str coord)) ring = vertices"
    by auto
  from Cons.prems obtain vs where vs:
    "map_err (to_float flt) (split CHR '','' v) = Inr vs" "map str vs = split CHR '','' v"
    using canonical_vertex [of "split CHR '','' v" str flt] by auto
  from vs(2) have "join '','' (map str vs) = v"
    by (simp add: join_split)
  with ring vs(1) show ?case
    by simp
qed

text \<open>
  C7 as stated fails: the polygon string \<open>50,0 51,0 51,1\<close> is parsed to three pairs of
  floats; the ring with each pair reversed is formatted as \<open>50.0,0.0 51.0,0.0 51.0,1.0\<close>,
  which is not the original string.
\<close>

theorem round_trip_reformats_counterexample:
  "parse_polygon_coords py_float ''50,0 51,0 51,1'' =
     Inr [[Fin 50, Fin 0], [Fin 51, Fin 0], [Fin 51, Fin 1]] \<and>
   geojson_polygon_to_string py_str
     \<lparr>geometry = Some \<lparr>type = Some ''Polygon'',
                       coordinates = Some [[[Fin 0, Fin 50], [Fin 0, Fin 51], [Fin 1, Fin 51]]]\<rparr>,
      properties = Some (PDict [(''name'', ''A'')])\<rparr> = Inr ''50.0,0.0 51.0,0.0 51.0,1.0''"
  by code_simp

text \<open>
  C7, amended. \<open>geojson_polygon_to_string\<close> writes every pair \<open>[x, y]\<close> of the outer ring as
  \<open>str(y)\<close>, a comma, \<open>str(x)\<close>, and separates the pairs by one space. A polygon string in
  which every token is the \<open>str\<close> of the float it is parsed to comes back unchanged from
  parsing, reversing each pair, and formatting.
\<close>

theorem polygon_string_format_and_round_trip:
  "geojson_polygon_to_string str
     \<lparr>geometry = Some \<lparr>type = ty, coordinates = Some (map (\<lambda>(x, y). [x, y]) pairs # holes)\<rparr>,
      properties = props\<rparr> =
     Inr (join '' '' (map (\<lambda>(x, y). str y @ '','' @ str x) pairs)) \<and>
   (canonical_tokens flt str polygon_string \<longrightarrow>
      (\<exists>ring. parse_polygon_coords flt polygon_string = Inr ring \<and>
         geojson_polygon_to_string str
           \<lparr>geometry = Some \<lparr>type = ty, coordinates = Some (map rev ring # holes)\<rparr>,
            properties = props\<rparr> = Inr polygon_string))"
proof -
  have "\<exists>ring. parse_polygon_coords flt polygon_string = Inr ring \<and>
         geojson_polygon_to_string str
           \<lparr>geometry = Some \<lparr>type = ty, coordinates = Some (map rev ring # holes)\<rparr>,
            properties = props\<rparr> = Inr polygon_string"
    if "canonical_tokens flt str polygon_string"
  proof -
    from that canonical_vertices [of "split CHR '' '' polygon_string" str flt] obtain ring where
      "parse_polygon_coords flt polygon_string = Inr ring"
      and unparse: "map (\<lambda>coord. join '','' (map str coord)) ring = split CHR '' '' polygon_string"
      by (auto simp add: canonical_tokens_def parse_polygon_coords_def)
    moreover have "join '' '' (map (\<lambda>coord. join '','' (map str (rev coord))) (map rev ring)) = polygon_string"
      using unparse join_split [of "CHR '' ''" polygon_string] by (simp add: comp_def)
    ultimately show ?thesis
      by (simp add: geojson_polygon_to_string_ring)
  qed
  moreover have "geojson_polygon_to_string str
     \<lparr>geometry = Some \<lparr>type = ty, coordinates = Some (map (\<lambda>(x, y). [x, y]) pairs # holes)\<rparr>,
      properties = props\<rparr> =
     Inr (join '' '' (map (\<lambda>(x, y). str y @ '','' @ str x) pairs))"
    by (simp only: geojson_polygon_to_string_ring join_pairs)
  ultimately show ?thesis
    by blast
qed

theorem polygon_string_format_and_round_trip_witness:
  "canonical_tokens py_float py_str ''50.0,0.0 51.0,0.0 51.0,1.5'' \<and>
   parse_polygon_coords py_float ''50.0,0.0 51.0,0.0 51.0,1.5'' =
     Inr [[Fin 50, Fin 0], [Fin 51, Fin 0], [Fin 51, Fin (3 / 2)]] \<and>
   geojson_polygon_to_string py_str
     \<lparr>geometry = Some \<lparr>type = Some ''Polygon'',
        coordinates = Some [map rev [[Fin 50, Fin 0], [Fin 51, Fin 0], [Fin 51, Fin (3 / 2)]]]\<rparr>,
      properties = Some (PDict [(''name'', ''A'')])\<rparr> = Inr ''50.0,0.0 51.0,0.0 51.0,1.5''"
proof -
  have c: "canonical_tokens py_float py_str ''50.0,0.0 51.0,0.0 51.0,1.5''"
    by code_simp
  have p: "parse_polygon_coords py_float ''50.0,0.0 51.0,0.0 51.0,1.5'' =
     Inr [[Fin 50, Fin 0], [Fin 51, Fin 0], [Fin 51, Fin (3 / 2)]]"
    by code_simp
  from polygon_string_format_and_round_trip
         [where flt = py_float and str = py_str and polygon_string = "''50.0,0.0 51.0,0.0 51.0,1.5''"
            and ty = "Some ''Polygon''" and holes = "[]"
            and props = "Some (PDict [(''name'', ''A'')])"] c p
  show ?thesis
    by auto
qed

subsection \<open>The extent checks in full\<close>

text \<open>A bbox string of four numeric tokens or more: which check fails, or none.\<close>

lemma two_asserts:
  "and_then (py_assert (and_also (Inr a) (Inr c)) (Inr m1))
            (py_assert (and_also (Inr b) (Inr d)) (Inr m2)) =
     (if a \<and> c then if b \<and> d then Inr () else Inl (AssertionError m2)
      else Inl (AssertionError m1))"
  by (cases a; cases b; cases c; cases d) (simp_all add: and_then_def py_assert_def and_also_def)

lemma validate_bbox_inner_numeric:
  assumes "4 \<le> length (split CHR '','' bbox_string)"
    and "flt (split CHR '','' bbox_string ! 0) = Some v0"
    and "flt (split CHR '','' bbox_string ! 1) = Some v1"
    and "flt (split CHR '','' bbox_string ! 2) = Some v2"
    and "flt (split CHR '','' bbox_string ! 3) = Some v3"
    and "bbox_msg srs = Inr fmt"
  shows "validate_bbox_inner flt bbox_string srs min_x max_x min_y max_y =
     (if strictly_inside v0 min_y max_y \<and> strictly_inside v2 min_y max_y
      then if strictly_inside v1 min_x max_x \<and> strictly_inside v3 min_x max_x
           then Inr ()
           else Inl (AssertionError (longitude_text min_x max_x fmt))
      else Inl (AssertionError (latitude_text min_y max_y fmt)))"
proof -
  let ?toks = "split CHR '','' bbox_string"
  have "token_in flt ?toks 0 min_y max_y = Inr (strictly_inside v0 min_y max_y)"
    and "token_in flt ?toks 2 min_y max_y = Inr (strictly_inside v2 min_y max_y)"
    and "token_in flt ?toks 1 min_x max_x = Inr (strictly_inside v1 min_x max_x)"
    and "token_in flt ?toks 3 min_x max_x = Inr (strictly_inside v3 min_x max_x)"
    using assms(1-5) by (auto simp add: token_in_eq)
  then have "validate_bbox_inner flt bbox_string srs min_x max_x min_y max_y =
      and_then
        (py_assert (and_also (Inr (strictly_inside v0 min_y max_y))
                             (Inr (strictly_inside v2 min_y max_y)))
           (Inr (latitude_text min_y max_y fmt)))
        (py_assert (and_also (Inr (strictly_inside v1 min_x max_x))
                             (Inr (strictly_inside v3 min_x max_x)))
           (Inr (longitude_text min_x max_x fmt)))"
    unfolding validate_bbox_inner_def Let_def assms(6) latitude_msg_def longitude_msg_def
    by simp
  then show ?thesis
    by (simp only: two_asserts)
qed

lemma float_lt_trans: "float_lt a b \<Longrightarrow> float_lt b c \<Longrightarrow> float_lt a c"
  by (cases a; cases b; cases c) simp_all

lemma float_lt_le_trans:
  "float_lt a b \<Longrightarrow> \<not> float_lt c b \<Longrightarrow> c \<noteq> NaN \<Longrightarrow> float_lt a c"
  by (cases a; cases b; cases c) simp_all

lemma float_le_lt_trans:
  "\<not> float_lt b a \<Longrightarrow> float_lt b c \<Longrightarrow> a \<noteq> NaN \<Longrightarrow> float_lt a c"
  by (cases a; cases b; cases c) simp_all

lemma float_lt_not_NaN: "float_lt a b \<Longrightarrow> a \<noteq> NaN \<and> b \<noteq> NaN"
  by (cases a; cases b) simp_all

text \<open>The loop of \<open>min\<close>: started on a number, it ends on a number that no number of the
  sequence is below.\<close>

lemma min_loop:
  assumes "m \<noteq> NaN"
  shows "foldl (\<lambda>m v. if float_lt v m then v else m) m xs \<noteq> NaN \<and>
         \<not> float_lt m (foldl (\<lambda>m v. if float_lt v m then v else m) m xs) \<and>
         (\<forall>v \<in> set xs. v \<noteq> NaN \<longrightarrow>
            \<not> float_lt v (foldl (\<lambda>m v. if float_lt v m then v else m) m xs))"
  using assms
proof (induction xs arbitrary: m)
  case Nil
  then show ?case
    by (cases m) simp_all
next
  case (Cons x xs)
  let ?step = "\<lambda>m v. if float_lt v m then v else m"
  let ?m' = "if float_lt x m then x else m"
  from Cons.prems have m': "?m' \<noteq> NaN"
    by (auto dest: float_lt_not_NaN)
  note IH = Cons.IH [OF m']
  have below: "\<not> float_lt m (foldl ?step ?m' xs)"
  proof (cases "float_lt x m")
    case True
    with IH show ?thesis
      by (auto dest: float_lt_trans)
  next
    case False
    with IH show ?thesis
      by simp
  qed
  have "\<not> float_lt x (foldl ?step ?m' xs)" if "x \<noteq> NaN"
  proof (cases "float_lt x m")
    case True
    with IH show ?thesis
      by simp
  next
    case False
    show ?thesis
    proof
      assume "float_lt x (foldl ?step ?m' xs)"
      with False IH have "float_lt x (foldl ?step m xs)" and "\<not> float_lt m (foldl ?step m xs)"
        by simp_all
      with Cons.prems have "float_lt x m"
        by (cases x; cases m; cases "foldl ?step m xs") simp_all
      with False show False ..
    qed
  qed
  with IH below show ?case
    by simp
qed

lemma max_loop:
  assumes "m \<noteq> NaN"
  shows "foldl (\<lambda>m v. if float_gt v m then v else m) m xs \<noteq> NaN \<and>
         \<not> float_lt (foldl (\<lambda>m v. if float_gt v m then v else m) m xs) m \<and>
         (\<forall>v \<in> set xs. v \<noteq> NaN \<longrightarrow>
            \<not> float_lt (foldl (\<lambda>m v. if float_gt v m then v else m) m xs) v)"
  using assms
proof (induction xs arbitrary: m)
  case Nil
  then show ?case
    by (cases m) simp_all
next
  case (Cons x xs)
  let ?step = "\<lambda>m v. if float_gt v m then v else m"
  let ?m' = "if float_gt x m then x else m"
  from Cons.prems have m': "?m' \<noteq> NaN"
    by (auto simp add: float_gt_def dest: float_lt_not_NaN)
  note IH = Cons.IH [OF m']
  have above: "\<not> float_lt (foldl ?step ?m' xs) m"
  proof (cases "float_gt x m")
    case True
    with IH show ?thesis
      by (auto simp add: float_gt_def dest: float_lt_trans)
  next
    case False
    with IH show ?thesis
      by simp
  qed
  have "\<not> float_lt (foldl ?step ?m' xs) x" if "x \<noteq> NaN"
  proof (cases "float_gt x m")
    case True
    with IH show ?thesis
      by simp
  next
    case False
    show ?thesis
    proof
      assume "float_lt (foldl ?step ?m' xs) x"
      with False IH have "float_lt (foldl ?step m xs) x" and "\<not> float_lt (foldl ?step m xs) m"
        by simp_all
      with Cons.prems have "float_lt m x"
        by (cases x; cases m; cases "foldl ?step m xs") simp_all
      with False show False
        by (simp add: float_gt_def)
    qed
  qed
  with IH above show ?case
    by simp
qed

lemma loop_picks: "foldl (\<lambda>m v. if p v m then v else m) m xs \<in> set (m # xs)"
  by (induction xs arbitrary: m) auto

lemma float_lt_NaN [simp]: "float_lt a NaN = False"
  by (cases a) simp_all

lemma loop_from_NaN:
  "foldl (\<lambda>m v. if float_lt v m then v else m) NaN xs = NaN"
  "foldl (\<lambda>m v. if float_gt v m then v else m) NaN xs = NaN"
  by (induction xs) (simp_all add: float_gt_def)

lemma py_min_above:
  "\<exists>r. py_min (x # xs) = Inr r \<and>
       (float_lt lo r = (x \<noteq> NaN \<and> (\<forall>v \<in> set (x # xs). v \<noteq> NaN \<longrightarrow> float_lt lo v)))"
proof (cases "x = NaN")
  case True
  then show ?thesis
    by (simp add: py_min_def loop_from_NaN)
next
  case False
  define r where "r = foldl (\<lambda>m v. if float_lt v m then v else m) x xs"
  have is_min: "py_min (x # xs) = Inr r"
    by (simp add: py_min_def r_def)
  from min_loop [OF False, of xs] have "r \<noteq> NaN" and "\<not> float_lt x r"
    and "\<forall>v \<in> set xs. v \<noteq> NaN \<longrightarrow> \<not> float_lt v r"
    unfolding r_def by simp_all
  then have least: "\<not> float_lt v r" if "v \<in> set (x # xs)" "v \<noteq> NaN" for v
    using that by auto
  have picked: "r \<in> set (x # xs)"
    unfolding r_def by (rule loop_picks)
  have "float_lt lo r = (\<forall>v \<in> set (x # xs). v \<noteq> NaN \<longrightarrow> float_lt lo v)"
  proof
    assume "float_lt lo r"
    then show "\<forall>v \<in> set (x # xs). v \<noteq> NaN \<longrightarrow> float_lt lo v"
      using least float_lt_le_trans by blast
  next
    assume "\<forall>v \<in> set (x # xs). v \<noteq> NaN \<longrightarrow> float_lt lo v"
    with picked \<open>r \<noteq> NaN\<close> show "float_lt lo r"
      by blast
  qed
  with is_min False show ?thesis
    by blast
qed

lemma py_max_below:
  "\<exists>r. py_max (x # xs) = Inr r \<and>
       (float_lt r hi = (x \<noteq> NaN \<and> (\<forall>v \<in> set (x # xs). v \<noteq> NaN \<longrightarrow> float_lt v hi)))"
proof (cases "x = NaN")
  case True
  then show ?thesis
    by (simp add: py_max_def loop_from_NaN)
next
  case False
  define r where "r = foldl (\<lambda>m v. if float_gt v m then v else m) x xs"
  have is_max: "py_max (x # xs) = Inr r"
    by (simp add: py_max_def r_def)
  from max_loop [OF False, of xs] have "r \<noteq> NaN" and "\<not> float_lt r x"
    and "\<forall>v \<in> set xs. v \<noteq> NaN \<longrightarrow> \<not> float_lt r v"
    unfolding r_def by simp_all
  then have greatest: "\<not> float_lt r v" if "v \<in> set (x # xs)" "v \<noteq> NaN" for v
    using that by auto
  have picked: "r \<in> set (x # xs)"
    unfolding r_def by (rule loop_picks)
  have "float_lt r hi = (\<forall>v \<in> set (x # xs). v \<noteq> NaN \<longrightarrow> float_lt v hi)"
  proof
    assume "float_lt r hi"
    then show "\<forall>v \<in> set (x # xs). v \<noteq> NaN \<longrightarrow> float_lt v hi"
      using greatest float_le_lt_trans by blast
  next
    assume "\<forall>v \<in> set (x # xs). v \<noteq> NaN \<longrightarrow> float_lt v hi"
    with picked \<open>r \<noteq> NaN\<close> show "float_lt r hi"
      by blast
  qed
  with is_max False show ?thesis
    by blast
qed

lemma axis_check:
  assumes "vals \<noteq> []"
  shows "\<exists>mx mn. py_max vals = Inr mx \<and> py_min vals = Inr mn \<and>
           ((float_gt mn (of_pyint lo) \<and> float_lt mx (of_pyint hi)) = axis_passes vals lo hi)"
proof -
  from assms obtain x xs where vals: "vals = x # xs"
    by (cases vals) auto
  from py_max_below [of x xs "of_pyint hi"] obtain mx where mx: "py_max (x # xs) = Inr mx"
    "float_lt mx (of_pyint hi) =
       (x \<noteq> NaN \<and> (\<forall>v \<in> set (x # xs). v \<noteq> NaN \<longrightarrow> float_lt v (of_pyint hi)))"
    by blast
  from py_min_above [of x xs "of_pyint lo"] obtain mn where mn: "py_min (x # xs) = Inr mn"
    "float_lt (of_pyint lo) mn =
       (x \<noteq> NaN \<and> (\<forall>v \<in> set (x # xs). v \<noteq> NaN \<longrightarrow> float_lt (of_pyint lo) v))"
    by blast
  have "(float_gt mn (of_pyint lo) \<and> float_lt mx (of_pyint hi)) = axis_passes (x # xs) lo hi"
    unfolding axis_passes_def list.case list_all_iff compare_strictly_inside [symmetric]
      float_gt_def mx(2) mn(2)
    by blast
  with mx(1) mn(1) vals show ?thesis
    by simp
qed

lemma shortest_row:
  "(i < foldl (\<lambda>n row. min n (length row)) n rs) = (i < n \<and> (\<forall>r \<in> set rs. i < length r))"
  by (induction rs arbitrary: n) auto

lemma index_zip_star:
  assumes "rows \<noteq> []"
  shows "index (zip_star rows) i =
     (if \<forall>r \<in> set rows. i < length r then Inr (map (\<lambda>r. r ! i) rows)
      else Inl (IndexError ''list index out of range''))"
proof -
  from assms obtain r rs where rows: "rows = r # rs"
    by (cases rows) auto
  show ?thesis
    unfolding rows by (simp add: zip_star_def index_def shortest_row)
qed

lemma parsed_ring_shape:
  assumes "parse_polygon_coords flt polygon_string = Inr ring"
  shows "ring \<noteq> []" and "\<forall>vertex \<in> set ring. vertex \<noteq> []"
proof -
  let ?f = "\<lambda>coords. map_err (to_float flt) (split CHR '','' coords)"
  from assms have eq: "map ?f (split CHR '' '' polygon_string) = map Inr ring"
    by (simp add: parse_polygon_coords_def map_err_Inr)
  then have "length ring = length (split CHR '' '' polygon_string)"
    using map_eq_imp_length_eq by fastforce
  then show "ring \<noteq> []"
    using split_nonempty [of "CHR '' ''" polygon_string] by auto
  show "\<forall>vertex \<in> set ring. vertex \<noteq> []"
  proof
    fix vertex assume "vertex \<in> set ring"
    then have "Inr vertex \<in> set (map ?f (split CHR '' '' polygon_string))"
      unfolding eq by simp
    then obtain coords where "map_err (to_float flt) (split CHR '','' coords) = Inr vertex"
      by auto
    then have "map (to_float flt) (split CHR '','' coords) = map Inr vertex"
      by (simp add: map_err_Inr)
    then have "length vertex = length (split CHR '','' coords)"
      using map_eq_imp_length_eq by fastforce
    then show "vertex \<noteq> []"
      using split_nonempty [of "CHR '',''" coords] by auto
  qed
qed

lemma validate_polygon_string_inner_ok:
  assumes "parse_polygon_coords flt polygon_string = Inr ring"
  shows "(validate_polygon_string_inner flt polygon_string srs min_x max_x min_y max_y = Inr ()) =
     ((\<forall>vertex \<in> set ring. 2 \<le> length vertex) \<and>
      axis_passes (map (\<lambda>vertex. vertex ! 0) ring) min_y max_y \<and>
      axis_passes (map (\<lambda>vertex. vertex ! 1) ring) min_x max_x)"
proof -
  note shape = parsed_ring_shape [OF assms]
  let ?lats = "map (\<lambda>vertex. vertex ! 0) ring"
  let ?lons = "map (\<lambda>vertex. vertex ! 1) ring"
  from shape have first: "index (zip_star ring) 0 = Inr ?lats"
    by (simp add: index_zip_star)
  from shape(1) have "?lats \<noteq> []"
    by simp
  from axis_check [OF this, of min_y max_y] obtain max_lat min_lat where lat:
    "py_max ?lats = Inr max_lat" "py_min ?lats = Inr min_lat"
    "(float_gt min_lat (of_pyint min_y) \<and> float_lt max_lat (of_pyint max_y)) =
       axis_passes ?lats min_y max_y"
    by blast
  show ?thesis
  proof (cases "\<forall>vertex \<in> set ring. 2 \<le> length vertex")
    case False
    then obtain short where "short \<in> set ring" and "\<not> 2 \<le> length short"
      by blast
    then have "\<not> (\<forall>vertex \<in> set ring. 1 < length vertex)"
      by force
    then have none: "index (zip_star ring) 1 = Inl (IndexError ''list index out of range'')"
      using index_zip_star [OF shape(1), of 1] by simp
    have "validate_polygon_string_inner flt polygon_string srs min_x max_x min_y max_y =
        Inl (IndexError ''list index out of range'')"
      unfolding validate_polygon_string_inner_def Let_def assms bind_def sum.case first lat(1,2)
        none
      by (simp only: sum.case)
    with False show ?thesis
      by simp
  next
    case True
    then have "\<forall>vertex \<in> set ring. 1 < length vertex"
      by auto
    then have second: "index (zip_star ring) 1 = Inr ?lons"
      using index_zip_star [OF shape(1), of 1] by simp
    from shape(1) have "?lons \<noteq> []"
      by simp
    from axis_check [OF this, of min_x max_x] obtain max_lon min_lon where lon:
      "py_max ?lons = Inr max_lon" "py_min ?lons = Inr min_lon"
      "(float_gt min_lon (of_pyint min_x) \<and> float_lt max_lon (of_pyint max_x)) =
         axis_passes ?lons min_x max_x"
      by blast
    have "validate_polygon_string_inner flt polygon_string srs min_x max_x min_y max_y =
        and_then
          (py_assert (Inr (axis_passes ?lats min_y max_y))
             (latitude_msg min_y max_y (polygon_msg srs)))
          (py_assert (Inr (axis_passes ?lons min_x max_x))
             (longitude_msg min_x max_x (polygon_msg srs)))"
      unfolding validate_polygon_string_inner_def Let_def assms bind_def sum.case first second
        lat(1,2) lon(1,2)
      by (simp only: lat(3) lon(3))
    with True show ?thesis
      by (simp add: and_then_ok py_assert_ok)
  qed
qed

lemma validate_polygon_string_inner_parse_error:
  "parse_polygon_coords flt polygon_string = Inl e \<Longrightarrow>
   validate_polygon_string_inner flt polygon_string srs min_x max_x min_y max_y = Inl e"
  by (simp add: validate_polygon_string_inner_def bind_def)

lemma validate_polygon_string_ok:
  assumes "parse_polygon_coords flt polygon_string = Inr ring"
  shows "(validate_polygon_string flt polygon_string srs = Inr ()) =
     ((\<forall>vertex \<in> set ring. 2 \<le> length vertex) \<and>
      (srs = ''EPSG:4326'' \<and>
         axis_passes (map (\<lambda>vertex. vertex ! 0) ring) 49 61 \<and>
         axis_passes (map (\<lambda>vertex. vertex ! 1) ring) (-7) 2 \<or>
       srs = ''EPSG:27700'' \<and>
         axis_passes (map (\<lambda>vertex. vertex ! 0) ring) 0 1250000 \<and>
         axis_passes (map (\<lambda>vertex. vertex ! 1) ring) 0 700000))"
  by (auto simp add: validate_polygon_string_def and_then_ok validate_srs_ok
        validate_polygon_string_inner_ok [OF assms])

text \<open>Without not-a-number among the values, the axis check is the check of every value.\<close>

lemma axis_passes_numbers:
  assumes "vals \<noteq> []" and "NaN \<notin> set vals"
  shows "axis_passes vals lo hi = list_all (\<lambda>v. strictly_inside v lo hi) vals"
proof -
  from assms(1) obtain x xs where "vals = x # xs"
    by (cases vals) auto
  with assms(2) show ?thesis
    by (auto simp add: axis_passes_def list_all_iff)
qed

end
